theory Spec2Isabelle
  imports Complex_Main
begin

section \<open>Data model (types.ts and the head of Game.ts)\<close>

text \<open>
  JavaScript numbers are modelled as follows: quantities that only ever hold integers
  (level, ammunition, wave counters) are \<open>int\<close>; all other numbers (health, damage, timers,
  coordinates) are \<open>real\<close>, i.e. the arithmetic of the source without rounding.
\<close>

type_synonym vec3 = "real \<times> real \<times> real"

definition vx :: "vec3 \<Rightarrow> real" where "vx v = fst v"
definition vy :: "vec3 \<Rightarrow> real" where "vy v = fst (snd v)"
definition vz :: "vec3 \<Rightarrow> real" where "vz v = snd (snd v)"

definition vadd :: "vec3 \<Rightarrow> vec3 \<Rightarrow> vec3" where
  "vadd a b = (vx a + vx b, vy a + vy b, vz a + vz b)"

definition subVectors :: "vec3 \<Rightarrow> vec3 \<Rightarrow> vec3" where
  "subVectors a b = (vx a - vx b, vy a - vy b, vz a - vz b)"

definition multiplyScalar :: "vec3 \<Rightarrow> real \<Rightarrow> vec3" where
  "multiplyScalar a k = (vx a * k, vy a * k, vz a * k)"

definition lengthSq :: "vec3 \<Rightarrow> real" where
  "lengthSq a = vx a * vx a + vy a * vy a + vz a * vz a"

definition vlength :: "vec3 \<Rightarrow> real" where
  "vlength a = sqrt (lengthSq a)"

definition distanceTo :: "vec3 \<Rightarrow> vec3 \<Rightarrow> real" where
  "distanceTo a b = vlength (subVectors a b)"

text \<open>three.js \<open>Vector3.normalize\<close>: \<open>divideScalar(length() || 1)\<close>.\<close>
definition normalize :: "vec3 \<Rightarrow> vec3" where
  "normalize a = multiplyScalar a (1 / (if vlength a = 0 then 1 else vlength a))"

definition dot :: "vec3 \<Rightarrow> vec3 \<Rightarrow> real" where
  "dot a b = vx a * vx b + vy a * vy b + vz a * vz b"

text \<open>three.js \<open>Vector3.angleTo\<close>.\<close>
definition angleTo :: "vec3 \<Rightarrow> vec3 \<Rightarrow> real" where
  "angleTo a b =
     (let denominator = sqrt (lengthSq a * lengthSq b)
      in if denominator = 0 then pi / 2
         else arccos (max (- 1) (min 1 (dot a b / denominator))))"

text \<open>three.js \<open>Vector3.lerp\<close>.\<close>
definition lerp :: "vec3 \<Rightarrow> vec3 \<Rightarrow> real \<Rightarrow> vec3" where
  "lerp a b t = vadd a (multiplyScalar (subVectors b a) t)"

datatype GameState =
  start_screen | playing | wave_transition | boss_fight | game_over | victory | paused

datatype EnemyType = drone | scout | tank | kamikaze

datatype PickupType = ammo | health | shield_charge

datatype WeaponLevel = W1 | W2

record PlayerStats =
  hp :: real
  maxHp :: real
  stamina :: real
  maxStamina :: real
  ammoInMagazine :: int
  maxAmmoInMagazine :: int
  reserveAmmo :: int
  reloading :: bool
  reloadTime :: real
  isAiming :: bool
  q_unlocked :: bool
  q_cooldown :: real
  z_unlocked :: bool
  z_cooldown :: real
  z_active :: bool
  z_duration :: real
  melee_attacking :: bool
  melee_cooldown :: real
  melee_swingTime :: real
  lastHitTime :: real
  shield_unlocked :: bool
  shield_cooldown :: real
  shield_active :: bool
  shield_duration :: real
  drone_unlocked :: bool
  velocity_y :: real
  onGround :: bool
  sprinting :: bool
  lastShotTime :: real

record Wave =
  totalToKill :: int
  killedInWave :: int
  spawnedInWave :: int
  spawnInterval :: real
  spawnTimer :: real
  maxConcurrent :: int

record Enemy =
  e_hp :: real
  e_damage :: real
  e_speed :: real
  e_size :: real
  e_type :: EnemyType
  e_pos :: vec3

text \<open>
  \<open>BossType\<close>. \<open>createBossMesh\<close> sets \<open>isFinalBoss\<close>, \<open>weakPoint\<close>, \<open>weakPointPath\<close> and
  \<open>weakPointProgress\<close> together (level 5 only), so the presence of the weak-point mesh is
  the flag \<open>b_isFinalBoss\<close>; \<open>b_weakPointPos\<close> is \<open>weakPoint.position\<close>.
\<close>
record Boss =
  b_hp :: real
  b_maxHp :: real
  b_damage :: real
  b_speed :: real
  b_size :: real
  b_attackTimer :: real
  b_pos :: vec3
  b_isFinalBoss :: bool
  b_weakPointHp :: "real option"
  b_maxWeakPointHp :: "real option"
  b_weakPointPos :: vec3
  b_weakPointProgress :: real

record Bullet =
  bu_pos :: vec3
  bu_velocity :: vec3
  bu_isExplosive :: bool
  bu_isLaser :: bool

record BossBullet =
  bb_pos :: vec3
  bb_velocity :: vec3
  bb_isLaser :: bool

record DroneBullet =
  db_pos :: vec3
  db_velocity :: vec3

record Pickup =
  pk_type :: PickupType
  pk_pos :: vec3

text \<open>
  Entries of \<open>this.particles\<close>. The boss hazards are particles tagged \<open>isShockwave\<close>,
  \<open>isShockwaveRing\<close> or \<open>isSweepingLaser\<close>; every other particle is a visual effect.
\<close>
datatype ParticleKind = Regular | Shockwave | ShockwaveRing | SweepingLaser

record Particle =
  p_kind :: ParticleKind
  p_lifespan :: real
  p_pos :: vec3
  p_velocity :: vec3
  p_scale_x :: real
  p_damage :: real
  p_expansionRate :: real
  p_rotation_y :: real
  p_rotationSpeed :: real

text \<open>The key codes read by the simulation (\<open>this.keys\<close>).\<close>
datatype Key =
  KeyR | ShiftLeft | KeyW | KeyA | KeyS | KeyD | Space | mouse0 | KeyF | KeyQ | KeyZ | KeyG

text \<open>
  Objects are referred to by reference: enemies and bosses live in stores indexed by an
  address, \<open>this.enemies\<close> is a list of addresses and \<open>this.boss\<close> an optional address.
  An enemy removed from the list still exists (with \<open>hp \<le> 0\<close>) for whoever holds it.
\<close>
datatype Target = TEnemy nat | TBoss nat

text \<open>Deferred callbacks registered with \<open>setTimeout\<close>.\<close>
datatype Timer =
  TStartNextWave
| TShowMessages "nat list" nat
| TSpawnBoss
| TMeleeHit vec3 vec3
| TRingShot nat

text \<open>
  Calls to the callbacks of the presentation layer and to \<open>setTimeout\<close>, most recent first.
  Message texts and snapshots are left out, except where a claim reads them.
\<close>
datatype Event =
  EvStateChange GameState
| EvMessage
| EvWaveUpdate int int int
| EvBossUpdateNull
| EvBossUpdate real real "real option"
| EvStats
| EvGameOver
| EvVictory
| EvExplosion vec3 nat
| EvScreenShake
| EvTimeout Timer nat
| EvBossIntroRequest int bool

record Game =
  gameState :: GameState
  previousGameState :: "GameState option"
  isNewGamePlus :: bool
  currentLevel :: int
  weaponLevel :: WeaponLevel
  player :: PlayerStats
  playerPos :: vec3
  wave :: Wave
  boss :: "nat option"
  bstore :: "nat \<Rightarrow> Boss"
  keys :: "Key \<Rightarrow> bool"
  enemies :: "nat list"
  estore :: "nat \<Rightarrow> Enemy"
  nextRef :: nat
  bullets :: "Bullet list"
  bossBullets :: "BossBullet list"
  dronePos :: "vec3 option"
  droneBullets :: "DroneBullet list"
  droneTarget :: "Target option"
  lastDroneShotTime :: real
  pickups :: "Pickup list"
  particles :: "Particle list"
  rnd :: "nat \<Rightarrow> real"
  rndIdx :: nat
  events :: "Event list"

section \<open>Configuration (config.ts)\<close>

definition PLAYER_HP :: real where "PLAYER_HP = 100"
definition PLAYER_SPEED :: real where "PLAYER_SPEED = 7"
definition PLAYER_SPRINT_SPEED :: real where "PLAYER_SPRINT_SPEED = 12"
definition PLAYER_JUMP_FORCE :: real where "PLAYER_JUMP_FORCE = 8"
definition PLAYER_STAMINA :: real where "PLAYER_STAMINA = 100"
definition PLAYER_STAMINA_COST :: real where "PLAYER_STAMINA_COST = 25"
definition PLAYER_STAMINA_REGEN :: real where "PLAYER_STAMINA_REGEN = 35"
definition PLAYER_DAMAGE_IMMUNITY :: real where "PLAYER_DAMAGE_IMMUNITY = 0.5"
definition PLAYER_ADS_SPEED_MULTIPLIER :: real where "PLAYER_ADS_SPEED_MULTIPLIER = 0.6"

record WeaponCfg =
  W_DAMAGE :: real
  W_MAGAZINE_SIZE :: int
  W_INITIAL_RESERVE_AMMO :: int
  W_PICKUP_AMMO_AMOUNT :: int
  W_COOLDOWN :: real
  W_RELOAD_TIME :: real
  W_SPREAD :: real

fun WEAPON :: "WeaponLevel \<Rightarrow> WeaponCfg" where
  "WEAPON W1 = \<lparr>W_DAMAGE = 10, W_MAGAZINE_SIZE = 30, W_INITIAL_RESERVE_AMMO = 90,
      W_PICKUP_AMMO_AMOUNT = 30, W_COOLDOWN = 0.15, W_RELOAD_TIME = 1.5, W_SPREAD = 0.015\<rparr>"
| "WEAPON W2 = \<lparr>W_DAMAGE = 15, W_MAGAZINE_SIZE = 40, W_INITIAL_RESERVE_AMMO = 120,
      W_PICKUP_AMMO_AMOUNT = 40, W_COOLDOWN = 0.08, W_RELOAD_TIME = 1.2, W_SPREAD = 0.01\<rparr>"

definition LASER_MODE_DAMAGE :: real where "LASER_MODE_DAMAGE = 25"
definition LASER_MODE_COOLDOWN :: real where "LASER_MODE_COOLDOWN = 0.1"

definition MELEE_DAMAGE :: real where "MELEE_DAMAGE = 35"
definition MELEE_RANGE :: real where "MELEE_RANGE = 4.5"
definition MELEE_COOLDOWN :: real where "MELEE_COOLDOWN = 1.2"
definition MELEE_SWING_DURATION :: real where "MELEE_SWING_DURATION = 0.3"

definition SKILL_Q_HEAL :: real where "SKILL_Q_HEAL = 35"
definition SKILL_Q_COOLDOWN :: real where "SKILL_Q_COOLDOWN = 20"

definition SKILL_Z_DURATION :: real where "SKILL_Z_DURATION = 5"
definition SKILL_Z_COOLDOWN :: real where "SKILL_Z_COOLDOWN = 30"
definition SKILL_Z_DAMAGE :: real where "SKILL_Z_DAMAGE = 50"
definition SKILL_Z_AOE_RADIUS :: real where "SKILL_Z_AOE_RADIUS = 5"

definition SHIELD_DURATION :: real where "SHIELD_DURATION = 4"
definition SHIELD_COOLDOWN :: real where "SHIELD_COOLDOWN = 25"

definition DRONE_DAMAGE :: real where "DRONE_DAMAGE = 4"
definition DRONE_FIRE_RATE :: real where "DRONE_FIRE_RATE = 0.5"
definition DRONE_RANGE :: real where "DRONE_RANGE = 40"

record EnemyCfg =
  E_HP :: real
  E_DAMAGE :: real
  E_SPEED :: real
  E_SIZE :: real
  E_DROP_CHANCE :: real

text \<open>\<open>CONFIG.ENEMY_DRONE\<close>, \<open>ENEMY_SCOUT\<close>, \<open>ENEMY_TANK\<close>, \<open>ENEMY_KAMIKAZE\<close>.\<close>
fun ENEMY :: "EnemyType \<Rightarrow> EnemyCfg" where
  "ENEMY drone = \<lparr>E_HP = 40, E_DAMAGE = 10, E_SPEED = 3.5, E_SIZE = 2.1, E_DROP_CHANCE = 0.5\<rparr>"
| "ENEMY scout = \<lparr>E_HP = 25, E_DAMAGE = 8, E_SPEED = 5.5, E_SIZE = 1.5, E_DROP_CHANCE = 0.4\<rparr>"
| "ENEMY tank = \<lparr>E_HP = 90, E_DAMAGE = 15, E_SPEED = 2.5, E_SIZE = 2.8, E_DROP_CHANCE = 0.6\<rparr>"
| "ENEMY kamikaze = \<lparr>E_HP = 10, E_DAMAGE = 40, E_SPEED = 7, E_SIZE = 1.3, E_DROP_CHANCE = 0.1\<rparr>"

record BossCfg =
  B_HP :: real
  B_DAMAGE :: real
  B_SPEED :: real
  B_SIZE :: real
  B_WEAK_POINT_HP :: "real option"
  B_ATTACK_COOLDOWN :: real
  B_BULLET_SPEED :: real
  B_BULLET_DAMAGE :: real

text \<open>
  \<open>CONFIG.BOSS_BASE\<close> has the keys 1 to 5. The source indexes it with
  \<open>this.currentLevel as keyof typeof CONFIG.BOSS_BASE\<close>; for any other level the lookup
  is \<open>undefined\<close> and reading a field of it raises a TypeError.
\<close>
definition BOSS_BASE :: "int \<Rightarrow> BossCfg option" where
  "BOSS_BASE l =
    (if l = 1 then Some \<lparr>B_HP = 800, B_DAMAGE = 20, B_SPEED = 3, B_SIZE = 7,
        B_WEAK_POINT_HP = None, B_ATTACK_COOLDOWN = 3, B_BULLET_SPEED = 25, B_BULLET_DAMAGE = 15\<rparr>
     else if l = 2 then Some \<lparr>B_HP = 1200, B_DAMAGE = 15, B_SPEED = 5, B_SIZE = 6,
        B_WEAK_POINT_HP = None, B_ATTACK_COOLDOWN = 2, B_BULLET_SPEED = 35, B_BULLET_DAMAGE = 15\<rparr>
     else if l = 3 then Some \<lparr>B_HP = 2000, B_DAMAGE = 25, B_SPEED = 4, B_SIZE = 9,
        B_WEAK_POINT_HP = None, B_ATTACK_COOLDOWN = 2.5, B_BULLET_SPEED = 30, B_BULLET_DAMAGE = 20\<rparr>
     else if l = 4 then Some \<lparr>B_HP = 3500, B_DAMAGE = 30, B_SPEED = 4.5, B_SIZE = 10,
        B_WEAK_POINT_HP = None, B_ATTACK_COOLDOWN = 4, B_BULLET_SPEED = 40, B_BULLET_DAMAGE = 25\<rparr>
     else if l = 5 then Some \<lparr>B_HP = 10000, B_DAMAGE = 40, B_SPEED = 2, B_SIZE = 30,
        B_WEAK_POINT_HP = Some 500, B_ATTACK_COOLDOWN = 5, B_BULLET_SPEED = 50, B_BULLET_DAMAGE = 30\<rparr>
     else None)"

definition MAX_LEVEL :: int where "MAX_LEVEL = 5"
definition GRAVITY :: real where "GRAVITY = - 25"

definition PICKUPS_HEALTH_AMOUNT :: real where "PICKUPS_HEALTH_AMOUNT = 20"
definition DROP_WEIGHT_AMMO :: real where "DROP_WEIGHT_AMMO = 10"
definition DROP_WEIGHT_HEALTH :: real where "DROP_WEIGHT_HEALTH = 4"


text \<open>
  \<open>CONFIG.BOSS_BASE[this.currentLevel as keyof typeof CONFIG.BOSS_BASE]\<close> where the source
  reads a field of the result at once. Outside levels 1 to 5 nothing is known about the
  value (the source raises there), so every theorem that depends on a looked-up field
  carries the hypothesis that the level is in range.
\<close>
definition bossConfig :: "int \<Rightarrow> BossCfg" where
  "bossConfig l = the (BOSS_BASE l)"

section \<open>Effects\<close>

definition emit :: "Event \<Rightarrow> Game \<Rightarrow> Game" where
  "emit e s = s\<lparr>events := e # events s\<rparr>"

definition changeGameState :: "GameState \<Rightarrow> Game \<Rightarrow> Game" where
  "changeGameState newState s = emit (EvStateChange newState) (s\<lparr>gameState := newState\<rparr>)"

text \<open>
  \<open>Math.random()\<close>: the next value of an injected stream. Only the draws that decide
  simulation state are taken from it (spawn kind and place, loot, bullet spread, the tier-5
  attack choice); the draws that only shape visual particles are not modelled.
\<close>
definition random :: "Game \<Rightarrow> real \<times> Game" where
  "random s = (rnd s (rndIdx s), s\<lparr>rndIdx := Suc (rndIdx s)\<rparr>)"

text \<open>\<open>createExplosion\<close> and \<open>triggerScreenShake\<close> only feed the presentation layer.\<close>
definition createExplosion :: "vec3 \<Rightarrow> nat \<Rightarrow> Game \<Rightarrow> Game" where
  "createExplosion position count s = emit (EvExplosion position count) s"

definition triggerScreenShake :: "Game \<Rightarrow> Game" where
  "triggerScreenShake s = emit EvScreenShake s"

section \<open>Damage model\<close>

definition playerTakeDamage :: "real \<Rightarrow> Game \<Rightarrow> Game" where
  "playerTakeDamage amount s =
    (if gameState s = game_over then s
     else if shield_active (player s) then triggerScreenShake s
     else
       let s1 = triggerScreenShake (s\<lparr>player := (player s)\<lparr>hp := hp (player s) - amount\<rparr>\<rparr>);
           s2 = (if hp (player s1) \<le> 0
                 then emit EvGameOver
                        (changeGameState game_over (s1\<lparr>player := (player s1)\<lparr>hp := 0\<rparr>\<rparr>))
                 else s1)
       in emit EvStats s2)"

text \<open>
  \<open>triggerBossSequence\<close> up to its \<open>await\<close>: the state change, the message and the request
  to the boss-intro collaborator. The continuation is \<open>bossIntroArrived\<close> below.
\<close>
definition triggerBossSequence :: "Game \<Rightarrow> Game" where
  "triggerBossSequence s =
     emit (EvBossIntroRequest (currentLevel s) (isNewGamePlus s))
       (emit EvMessage (changeGameState wave_transition s))"

definition spawnPickup :: "vec3 \<Rightarrow> Game \<Rightarrow> Game" where
  "spawnPickup position s =
    (let totalWeight = DROP_WEIGHT_AMMO + DROP_WEIGHT_HEALTH;
         (x, s1) = random s;
         r = x * totalWeight;
         ty = (if r < DROP_WEIGHT_AMMO then ammo else health);
         pickup = \<lparr>pk_type = ty, pk_pos = (vx position, 0.5, vz position)\<rparr>
     in s1\<lparr>pickups := pickups s1 @ [pickup]\<rparr>)"

text \<open>\<open>Array.splice(index, 1)\<close> for an index inside the array.\<close>
definition splice1 :: "nat \<Rightarrow> 'a list \<Rightarrow> 'a list" where
  "splice1 i xs = take i xs @ drop (Suc i) xs"

text \<open>\<open>Array.indexOf\<close> for an element that occurs in the array.\<close>
definition indexOf :: "'a \<Rightarrow> 'a list \<Rightarrow> nat" where
  "indexOf x xs = length (takeWhile (\<lambda>y. y \<noteq> x) xs)"

definition onEnemyDefeated :: "nat \<Rightarrow> nat \<Rightarrow> Game \<Rightarrow> Game" where
  "onEnemyDefeated enemy index s =
    (let e = estore s enemy;
         s1 = createExplosion (e_pos e) 40 s;
         s2 = s1\<lparr>enemies := splice1 index (enemies s1)\<rparr>;
         (x, s3) = random s2;
         s4 = (if x < E_DROP_CHANCE (ENEMY (e_type e)) then spawnPickup (e_pos e) s3 else s3);
         s5 = s4\<lparr>wave := (wave s4)\<lparr>killedInWave := killedInWave (wave s4) + 1\<rparr>\<rparr>;
         s6 = emit (EvWaveUpdate (currentLevel s5) (killedInWave (wave s5)) (totalToKill (wave s5))) s5
     in if killedInWave (wave s6) \<ge> totalToKill (wave s6) \<and> enemies s6 = []
        then triggerBossSequence s6 else s6)"

definition isHazard :: "Particle \<Rightarrow> bool" where
  "isHazard p = (p_kind p = Shockwave \<or> p_kind p = ShockwaveRing \<or> p_kind p = SweepingLaser)"

definition onBossDefeated :: "Game \<Rightarrow> Game" where
  "onBossDefeated s =
    (case boss s of
       None \<Rightarrow> s
     | Some b \<Rightarrow>
        let s1 = createExplosion (b_pos (bstore s b)) 200 s;
            s2 = emit EvBossUpdateNull (s1\<lparr>boss := None\<rparr>);
            s3 = s2\<lparr>bossBullets := [], particles := filter (\<lambda>p. \<not> isHazard p) (particles s2)\<rparr>
        in if currentLevel s3 \<ge> MAX_LEVEL
           then emit EvVictory (changeGameState victory s3)
           else emit (EvTimeout TStartNextWave 4000)
                  (emit EvMessage (changeGameState wave_transition s3)))"

text \<open>
  The statement sequence \<open>this.boss.hp -= d; flashMesh(..); if (this.boss.hp <= 0)
  this.onBossDefeated();\<close> that the source writes out at each place where a hit is applied
  to the boss without going through \<open>dealDamageTo\<close> (player bullet, laser bullet, drone
  bullet on the weak point, area burst on the weak point). It is only reached with
  \<open>this.boss\<close> set.
\<close>
definition bossHpSub :: "real \<Rightarrow> Game \<Rightarrow> Game" where
  "bossHpSub d s =
    (case boss s of
       None \<Rightarrow> s
     | Some b \<Rightarrow>
        let s1 = s\<lparr>bstore := (bstore s)(b := (bstore s b)\<lparr>b_hp := b_hp (bstore s b) - d\<rparr>)\<rparr>
        in if b_hp (bstore s1 b) \<le> 0 then onBossDefeated s1 else s1)"

text \<open>
  \<open>dealDamageTo\<close> and \<open>triggerExplosion\<close> call each other in the source, but a call with
  \<open>fromExplosion = true\<close> never reaches \<open>triggerExplosion\<close>. The body of \<open>dealDamageTo\<close> is
  therefore written once, with the explosion it may trigger as a parameter.
\<close>
definition dealDamageWith ::
  "(vec3 \<Rightarrow> real \<Rightarrow> real \<Rightarrow> Game \<Rightarrow> Game) \<Rightarrow> Target \<Rightarrow> real \<Rightarrow> bool \<Rightarrow> Game \<Rightarrow> Game" where
  "dealDamageWith explode target damage fromExplosion s =
    (case target of
       TEnemy r \<Rightarrow>
        (let e = estore s r in
         if e_hp e \<le> 0 then s
         else
           let s1 = (if e_type e = kamikaze \<and> \<not> fromExplosion
                     then (let s' = explode (e_pos e) (e_size e * 5) (e_damage e) s
                           in s'\<lparr>estore := (estore s')(r := (estore s' r)\<lparr>e_hp := 0\<rparr>)\<rparr>)
                     else s\<lparr>estore := (estore s)(r := e\<lparr>e_hp := e_hp e - damage\<rparr>)\<rparr>)
           in if e_hp (estore s1 r) \<le> 0
              then (if r \<in> set (enemies s1)
                    then onEnemyDefeated r (indexOf r (enemies s1)) s1 else s1)
              else s1)
     | TBoss b \<Rightarrow>
        (let bo = bstore s b in
         if b_hp bo \<le> 0 then s
         else
           let s1 = (if b_isFinalBoss bo then s
                     else s\<lparr>bstore := (bstore s)(b := bo\<lparr>b_hp := b_hp bo - damage\<rparr>)\<rparr>)
           in if b_hp (bstore s1 b) \<le> 0
              then (if boss s1 = Some b then onBossDefeated s1 else s1)
              else s1))"

text \<open>The enemy loop of \<open>triggerExplosion\<close>: \<open>i\<close> runs from \<open>n - 1\<close> down to 0 over the live array.\<close>
fun explosionLoop :: "nat \<Rightarrow> vec3 \<Rightarrow> real \<Rightarrow> real \<Rightarrow> Game \<Rightarrow> Game" where
  "explosionLoop 0 position radius damage s = s"
| "explosionLoop (Suc i) position radius damage s =
     explosionLoop i position radius damage
       (if i < length (enemies s)
           \<and> distanceTo (e_pos (estore s (enemies s ! i))) position < radius
        then dealDamageWith (\<lambda>_ _ _ s'. s') (TEnemy (enemies s ! i)) damage True s
        else s)"

definition triggerExplosion :: "vec3 \<Rightarrow> real \<Rightarrow> real \<Rightarrow> Game \<Rightarrow> Game" where
  "triggerExplosion position radius damage s =
    (let s1 = triggerScreenShake (createExplosion position 50 s);
         s2 = explosionLoop (length (enemies s1)) position radius damage s1
     in case boss s2 of
          None \<Rightarrow> s2
        | Some b \<Rightarrow>
           let bo = bstore s2 b in
           if distanceTo (b_pos bo) position < radius + b_size bo / 2
           then (if b_isFinalBoss bo
                 then (if distanceTo (b_weakPointPos bo) position < radius
                       then bossHpSub damage s2 else s2)
                 else dealDamageWith (\<lambda>_ _ _ s'. s') (TBoss b) damage True s2)
           else s2)"

definition dealDamageTo :: "Target \<Rightarrow> real \<Rightarrow> bool \<Rightarrow> Game \<Rightarrow> Game" where
  "dealDamageTo = dealDamageWith triggerExplosion"


section \<open>Collision resolution\<close>

text \<open>
  What one frame reads from outside the simulation state: the clock, and the results of
  scene-graph computations of the rendering library (world transforms, bounding boxes, the
  spline of the weak point), which are out of scope and taken as given.
\<close>
record Frame =
  deltaTime :: real
  elapsedTime :: real
  applyPlayerRotation :: "vec3 \<Rightarrow> vec3"
  cameraDirection :: vec3
  muzzlePosition :: vec3
  wallCollision :: "BossBullet \<Rightarrow> bool"
  laserSweepHit :: "Particle \<Rightarrow> vec3 \<Rightarrow> bool"
  weakPointPath :: "real \<Rightarrow> vec3"

text \<open>
  The inner loops over \<open>this.enemies\<close> run from the last index down and stop at the first
  enemy that passes the distance test; nothing changes before that enemy is found.
\<close>
definition findEnemy :: "(Enemy \<Rightarrow> bool) \<Rightarrow> Game \<Rightarrow> nat option" where
  "findEnemy P s = find (\<lambda>r. P (estore s r)) (rev (enemies s))"

definition bulletAfterHit :: "Bullet \<Rightarrow> vec3 \<Rightarrow> Game \<Rightarrow> bool \<times> Game" where
  "bulletAfterHit b p s =
    (let s1 = (if bu_isExplosive b
               then triggerExplosion p SKILL_Z_AOE_RADIUS SKILL_Z_DAMAGE s
               else createExplosion (bu_pos b) 10 s)
     in (\<not> bu_isLaser b, s1))"

text \<open>
  The body of the player-bullet loop of \<open>_checkBulletCollisions\<close> for one bullet; the
  Boolean says whether the bullet is spliced out of \<open>this.bullets\<close>.
\<close>
definition playerBulletStep :: "Bullet \<Rightarrow> Game \<Rightarrow> bool \<times> Game" where
  "playerBulletStep b s =
    (let weaponConfig = WEAPON (weaponLevel s);
         laserDamage = LASER_MODE_DAMAGE
     in case findEnemy (\<lambda>e. distanceTo (bu_pos b) (e_pos e) < e_size e) s of
          Some r \<Rightarrow>
            let s1 = (if bu_isLaser b then dealDamageTo (TEnemy r) laserDamage False s
                      else if \<not> bu_isExplosive b
                      then dealDamageTo (TEnemy r) (W_DAMAGE weaponConfig) False s
                      else s)
            in bulletAfterHit b (e_pos (estore s1 r)) s1
        | None \<Rightarrow>
           (case boss s of
              None \<Rightarrow> (False, s)
            | Some bref \<Rightarrow>
               let bo = bstore s bref;
                   hit = (if b_isFinalBoss bo
                          then distanceTo (bu_pos b) (b_weakPointPos bo) < 1.5
                          else distanceTo (bu_pos b) (b_pos bo) < b_size bo / 2);
                   p = (if b_isFinalBoss bo then b_weakPointPos bo else b_pos bo)
               in if hit
                  then (let s1 = (if bu_isLaser b then bossHpSub laserDamage s
                                  else if \<not> bu_isExplosive b
                                  then bossHpSub (W_DAMAGE weaponConfig) s
                                  else s)
                        in bulletAfterHit b p s1)
                  else (False, s)))"

text \<open>
  The bullet loops run from the last index down and splice only the current element, and
  nothing they call reads the bullet arrays: the list is processed from the back and the
  surviving bullets are collected.
\<close>
fun playerBulletLoop :: "Bullet list \<Rightarrow> Game \<Rightarrow> Bullet list \<times> Game" where
  "playerBulletLoop [] s = ([], s)"
| "playerBulletLoop (b # bs) s =
    (let (kept, s1) = playerBulletLoop bs s;
         (removed, s2) = playerBulletStep b s1
     in (if removed then kept else b # kept, s2))"

definition droneBulletStep :: "DroneBullet \<Rightarrow> Game \<Rightarrow> bool \<times> Game" where
  "droneBulletStep b s =
    (case findEnemy (\<lambda>e. distanceTo (db_pos b) (e_pos e) < e_size e) s of
       Some r \<Rightarrow> (True, dealDamageTo (TEnemy r) DRONE_DAMAGE False s)
     | None \<Rightarrow>
        (case boss s of
           None \<Rightarrow> (False, s)
         | Some bref \<Rightarrow>
            let bo = bstore s bref in
            if b_isFinalBoss bo \<and> distanceTo (db_pos b) (b_weakPointPos bo) < 1.5
            then (True, bossHpSub DRONE_DAMAGE s)
            else if \<not> b_isFinalBoss bo \<and> distanceTo (db_pos b) (b_pos bo) < b_size bo
            then (True, dealDamageTo (TBoss bref) DRONE_DAMAGE False s)
            else (False, s)))"

fun droneBulletLoop :: "DroneBullet list \<Rightarrow> Game \<Rightarrow> DroneBullet list \<times> Game" where
  "droneBulletLoop [] s = ([], s)"
| "droneBulletLoop (b # bs) s =
    (let (kept, s1) = droneBulletLoop bs s;
         (removed, s2) = droneBulletStep b s1
     in (if removed then kept else b # kept, s2))"

definition checkBulletCollisions :: "Game \<Rightarrow> Game" where
  "checkBulletCollisions s =
    (let (kept, s1) = playerBulletLoop (bullets s) s;
         s2 = s1\<lparr>bullets := kept\<rparr>;
         (dkept, s3) = droneBulletLoop (droneBullets s2) s2
     in s3\<lparr>droneBullets := dkept\<rparr>)"

fun bossBulletLoop :: "BossBullet list \<Rightarrow> Game \<Rightarrow> BossBullet list \<times> Game" where
  "bossBulletLoop [] s = ([], s)"
| "bossBulletLoop (b # bs) s =
    (let (kept, s1) = bossBulletLoop bs s
     in if distanceTo (playerPos s1) (bb_pos b) < 1.5
        then (kept, createExplosion (bb_pos b) 25
                      (playerTakeDamage (B_BULLET_DAMAGE (bossConfig (currentLevel s1))) s1))
        else (b # kept, s1))"

definition checkBossBulletCollisions :: "Game \<Rightarrow> Game" where
  "checkBossBulletCollisions s =
    (let (kept, s1) = bossBulletLoop (bossBullets s) s in s1\<lparr>bossBullets := kept\<rparr>)"

definition setLastHitTime :: "real \<Rightarrow> Game \<Rightarrow> Game" where
  "setLastHitTime t s = s\<lparr>player := (player s)\<lparr>lastHitTime := t\<rparr>\<rparr>"

text \<open>The first half of \<open>_checkPlayerCollisions\<close>: contact with an enemy or with the boss.\<close>
definition contactDamage :: "real \<Rightarrow> Game \<Rightarrow> Game" where
  "contactDamage now s =
    (if now > lastHitTime (player s) + PLAYER_DAMAGE_IMMUNITY
     then (case findEnemy (\<lambda>e. distanceTo (playerPos s) (e_pos e) < 1.0 + e_size e / 2) s of
             Some r \<Rightarrow>
               setLastHitTime now
                 (if e_type (estore s r) = kamikaze
                  then dealDamageTo (TEnemy r) (e_hp (estore s r)) False s
                  else playerTakeDamage (e_damage (estore s r)) s)
           | None \<Rightarrow>
              (case boss s of
                 None \<Rightarrow> s
               | Some bref \<Rightarrow>
                  if distanceTo (playerPos s) (b_pos (bstore s bref)) < b_size (bstore s bref) / 2
                  then setLastHitTime now (playerTakeDamage (b_damage (bstore s bref)) s)
                  else s))
     else s)"

definition collectPickup :: "Pickup \<Rightarrow> Game \<Rightarrow> Game" where
  "collectPickup pickup s =
    (let weaponConfig = WEAPON (weaponLevel s);
         p = player s;
         p1 = (if pk_type pickup = ammo
               then p\<lparr>reserveAmmo := reserveAmmo p + W_PICKUP_AMMO_AMOUNT weaponConfig\<rparr> else p);
         p2 = (if pk_type pickup = health
               then p1\<lparr>hp := min (maxHp p1) (hp p1 + PICKUPS_HEALTH_AMOUNT)\<rparr> else p1)
     in s\<lparr>player := p2\<rparr>)"

fun pickupLoop :: "Pickup list \<Rightarrow> Game \<Rightarrow> Pickup list \<times> Game" where
  "pickupLoop [] s = ([], s)"
| "pickupLoop (pk # pks) s =
    (let (kept, s1) = pickupLoop pks s
     in if distanceTo (playerPos s1) (pk_pos pk) < 1.5
        then (kept, collectPickup pk s1)
        else (pk # kept, s1))"

text \<open>The second half of \<open>_checkPlayerCollisions\<close>.\<close>
definition collectPickups :: "Game \<Rightarrow> Game" where
  "collectPickups s = (let (kept, s1) = pickupLoop (pickups s) s in s1\<lparr>pickups := kept\<rparr>)"

definition checkPlayerCollisions :: "real \<Rightarrow> Game \<Rightarrow> Game" where
  "checkPlayerCollisions now s = collectPickups (contactDamage now s)"

definition checkCollisions :: "Frame \<Rightarrow> Game \<Rightarrow> Game" where
  "checkCollisions fr s =
     checkPlayerCollisions (elapsedTime fr) (checkBossBulletCollisions (checkBulletCollisions s))"


section \<open>Player controller\<close>

text \<open>\<open>THREE.MathUtils.randFloat(low, high)\<close>.\<close>
definition randFloat :: "real \<Rightarrow> real \<Rightarrow> Game \<Rightarrow> real \<times> Game" where
  "randFloat low high s = (let (x, s1) = random s in (low + x * (high - low), s1))"

definition playerShoot :: "Frame \<Rightarrow> bool \<Rightarrow> Game \<Rightarrow> Game" where
  "playerShoot fr isLaser s =
    (let p = player s;
         p1 = (if \<not> isLaser then p\<lparr>ammoInMagazine := ammoInMagazine p - 1\<rparr> else p);
         p2 = p1\<lparr>lastShotTime := elapsedTime fr\<rparr>;
         s1 = s\<lparr>player := p2\<rparr>;
         direction = cameraDirection fr;
         (direction1, s2) =
           (if \<not> isAiming p2 \<and> \<not> isLaser
            then (let spread = W_SPREAD (WEAPON (weaponLevel s1));
                      (dx, sa) = randFloat (- spread) spread s1;
                      (dy, sb) = randFloat (- spread) spread sa;
                      (dz, sc) = randFloat (- spread) spread sb
                  in ((vx direction + dx, vy direction + dy, vz direction + dz), sc))
            else (direction, s1));
         bullet = \<lparr>bu_pos = muzzlePosition fr,
                   bu_velocity = multiplyScalar (normalize direction1) (if isLaser then 250 else 100),
                   bu_isExplosive = False, bu_isLaser = isLaser\<rparr>
     in s2\<lparr>bullets := bullets s2 @ [bullet]\<rparr>)"

definition useSkillQ :: "Game \<Rightarrow> Game" where
  "useSkillQ s =
     s\<lparr>player := (player s)\<lparr>hp := min (maxHp (player s)) (hp (player s) + SKILL_Q_HEAL),
                              q_cooldown := SKILL_Q_COOLDOWN\<rparr>\<rparr>"

definition useSkillZ :: "Game \<Rightarrow> Game" where
  "useSkillZ s =
     emit EvMessage
       (s\<lparr>player := (player s)\<lparr>z_active := True, z_duration := SKILL_Z_DURATION,
                                 z_cooldown := SKILL_Z_COOLDOWN\<rparr>\<rparr>)"

definition useSkillG :: "Game \<Rightarrow> Game" where
  "useSkillG s =
     emit EvMessage
       (s\<lparr>player := (player s)\<lparr>shield_active := True, shield_duration := SHIELD_DURATION,
                                 shield_cooldown := SHIELD_COOLDOWN\<rparr>\<rparr>)"

text \<open>
  \<open>playerMeleeAttack\<close> up to its \<open>setTimeout\<close>; the hit test runs later, as \<open>meleeHit\<close>, with
  the player position and view direction captured here.
\<close>
definition playerMeleeAttack :: "Frame \<Rightarrow> Game \<Rightarrow> Game" where
  "playerMeleeAttack fr s =
    (let p = player s in
     if melee_cooldown p > 0 \<or> melee_attacking p \<or> isAiming p then s
     else emit (EvTimeout (TMeleeHit (playerPos s) (cameraDirection fr)) 150)
            (s\<lparr>player := p\<lparr>melee_cooldown := MELEE_COOLDOWN, melee_attacking := True,
                             melee_swingTime := MELEE_SWING_DURATION\<rparr>\<rparr>))"

definition checkHit :: "vec3 \<Rightarrow> vec3 \<Rightarrow> Target \<Rightarrow> vec3 \<Rightarrow> real \<Rightarrow> real \<Rightarrow> Game \<Rightarrow> Game" where
  "checkHit playerPos0 forward target targetPos hitRange damage s =
    (let distance = distanceTo targetPos playerPos0;
         toTarget = normalize (subVectors targetPos playerPos0);
         angle = angleTo forward toTarget
     in if distance < hitRange \<and> angle < pi / 2.5
        then createExplosion targetPos 15 (dealDamageTo target damage False s)
        else s)"

fun meleeLoop :: "nat \<Rightarrow> vec3 \<Rightarrow> vec3 \<Rightarrow> Game \<Rightarrow> Game" where
  "meleeLoop 0 playerPos0 forward s = s"
| "meleeLoop (Suc j) playerPos0 forward s =
     meleeLoop j playerPos0 forward
       (if j < length (enemies s)
        then checkHit playerPos0 forward (TEnemy (enemies s ! j))
               (e_pos (estore s (enemies s ! j))) MELEE_RANGE MELEE_DAMAGE s
        else s)"

text \<open>The callback that \<open>playerMeleeAttack\<close> schedules half a swing later.\<close>
definition meleeHit :: "vec3 \<Rightarrow> vec3 \<Rightarrow> Game \<Rightarrow> Game" where
  "meleeHit playerPos0 forward s =
    (let s1 = meleeLoop (length (enemies s)) playerPos0 forward s
     in case boss s1 of
          None \<Rightarrow> s1
        | Some b \<Rightarrow> checkHit playerPos0 forward (TBoss b) (b_pos (bstore s1 b))
                      (MELEE_RANGE + b_size (bstore s1 b) / 2) MELEE_DAMAGE s1)"

text \<open>\<open>updatePlayer\<close>, lines 721 to 731: reloading.\<close>
definition updateReload :: "Frame \<Rightarrow> Game \<Rightarrow> Game" where
  "updateReload fr s =
    (let p = player s; weaponConfig = WEAPON (weaponLevel s) in
     if reloading p
     then (let p1 = p\<lparr>isAiming := False, reloadTime := reloadTime p - deltaTime fr\<rparr>
           in if reloadTime p1 \<le> 0
              then (let ammoNeeded = maxAmmoInMagazine p1 - ammoInMagazine p1;
                        ammoToReload = min ammoNeeded (reserveAmmo p1)
                    in s\<lparr>player := p1\<lparr>ammoInMagazine := ammoInMagazine p1 + ammoToReload,
                                         reserveAmmo := reserveAmmo p1 - ammoToReload,
                                         reloading := False, reloadTime := 0\<rparr>\<rparr>)
              else s\<lparr>player := p1\<rparr>)
     else if keys s KeyR \<and> reserveAmmo p > 0 \<and> ammoInMagazine p < maxAmmoInMagazine p
     then emit EvMessage
            (s\<lparr>player := p\<lparr>reloading := True, reloadTime := W_RELOAD_TIME weaponConfig\<rparr>\<rparr>)
     else s)"

text \<open>\<open>updatePlayer\<close>, lines 733 to 757: sprinting, stamina, movement, gravity and jump.\<close>
definition updateMovement :: "Frame \<Rightarrow> Game \<Rightarrow> Game" where
  "updateMovement fr s =
    (let dt = deltaTime fr;
         p = player s;
         adsMultiplier = (if isAiming p then PLAYER_ADS_SPEED_MULTIPLIER else 1);
         p1 = p\<lparr>sprinting := keys s ShiftLeft \<and> \<not> isAiming p\<rparr>;
         speed = (if sprinting p1 \<and> stamina p1 > 0 then PLAYER_SPRINT_SPEED else PLAYER_SPEED);
         isMoving = (keys s KeyW \<or> keys s KeyA \<or> keys s KeyS \<or> keys s KeyD);
         moveDirection = ((if keys s KeyD then 1 else if keys s KeyA then - 1 else 0), 0,
                          (if keys s KeyS then 1 else if keys s KeyW then - 1 else 0));
         p2 = (if sprinting p1 \<and> isMoving
               then p1\<lparr>stamina := stamina p1 - PLAYER_STAMINA_COST * dt\<rparr>
               else p1\<lparr>stamina := stamina p1 + PLAYER_STAMINA_REGEN * dt\<rparr>);
         p3 = p2\<lparr>stamina := max 0 (min PLAYER_STAMINA (stamina p2))\<rparr>;
         pos1 = vadd (playerPos s)
                  (multiplyScalar (applyPlayerRotation fr (normalize moveDirection))
                     (speed * adsMultiplier * dt));
         p4 = p3\<lparr>velocity_y := velocity_y p3 + GRAVITY * dt\<rparr>;
         y1 = vy pos1 + velocity_y p4 * dt;
         p5 = (if y1 < 1.6 then p4\<lparr>velocity_y := 0, onGround := True\<rparr> else p4);
         y2 = (if y1 < 1.6 then 1.6 else y1);
         p6 = (if keys s Space \<and> onGround p5
               then p5\<lparr>velocity_y := PLAYER_JUMP_FORCE, onGround := False\<rparr> else p5)
     in s\<lparr>player := p6, playerPos := (vx pos1, y2, vz pos1)\<rparr>)"

text \<open>\<open>updatePlayer\<close>, lines 765 to 773: firing.\<close>
definition updateFire :: "Frame \<Rightarrow> Game \<Rightarrow> Game" where
  "updateFire fr s =
    (let weaponConfig = WEAPON (weaponLevel s);
         p = player s;
         shootCooldown = (if z_active p then LASER_MODE_COOLDOWN else W_COOLDOWN weaponConfig);
         canShoot = (elapsedTime fr > lastShotTime p + shootCooldown)
     in if keys s mouse0 \<and> canShoot \<and> \<not> reloading p \<and> \<not> melee_attacking p
        then (if z_active p then playerShoot fr True s
              else if ammoInMagazine p > 0
              then (let s1 = playerShoot fr False s
                    in if weaponLevel s1 = W1 \<or> isNewGamePlus s1
                       then s1\<lparr>keys := (keys s1)(mouse0 := False)\<rparr> else s1)
              else s)
        else s)"

text \<open>\<open>updatePlayer\<close>, lines 775 to 778: melee and skill keys.\<close>
definition updateActionKeys :: "Frame \<Rightarrow> Game \<Rightarrow> Game" where
  "updateActionKeys fr s =
    (let s1 = (if keys s KeyF then playerMeleeAttack fr s else s);
         s2 = (if keys s1 KeyQ \<and> q_unlocked (player s1) \<and> q_cooldown (player s1) \<le> 0
               then useSkillQ s1 else s1);
         s3 = (if keys s2 KeyZ \<and> z_unlocked (player s2) \<and> z_cooldown (player s2) \<le> 0
               then useSkillZ s2 else s2)
     in if keys s3 KeyG \<and> shield_unlocked (player s3) \<and> shield_cooldown (player s3) \<le> 0
        then useSkillG s3 else s3)"

definition updatePlayer :: "Frame \<Rightarrow> Game \<Rightarrow> Game" where
  "updatePlayer fr s = updateActionKeys fr (updateFire fr (updateMovement fr (updateReload fr s)))"

definition updateMelee :: "real \<Rightarrow> Game \<Rightarrow> Game" where
  "updateMelee dt s =
    (let p = player s;
         p1 = (if melee_cooldown p > 0 then p\<lparr>melee_cooldown := melee_cooldown p - dt\<rparr> else p);
         p2 = (if melee_attacking p1
               then (let p' = p1\<lparr>melee_swingTime := melee_swingTime p1 - dt\<rparr>
                     in if melee_swingTime p' \<le> 0 then p'\<lparr>melee_attacking := False\<rparr> else p')
               else p1)
     in s\<lparr>player := p2\<rparr>)"

definition updateSkills :: "real \<Rightarrow> Game \<Rightarrow> Game" where
  "updateSkills dt s =
    (let p = player s;
         p1 = (if q_cooldown p > 0 then p\<lparr>q_cooldown := q_cooldown p - dt\<rparr> else p);
         p2 = (if z_cooldown p1 > 0 then p1\<lparr>z_cooldown := z_cooldown p1 - dt\<rparr> else p1);
         p3 = (if z_active p2
               then (let p' = p2\<lparr>z_duration := z_duration p2 - dt\<rparr>
                     in if z_duration p' \<le> 0 then p'\<lparr>z_active := False\<rparr> else p')
               else p2);
         p4 = (if shield_cooldown p3 > 0
               then p3\<lparr>shield_cooldown := shield_cooldown p3 - dt\<rparr> else p3);
         p5 = (if shield_active p4
               then (let p' = p4\<lparr>shield_duration := shield_duration p4 - dt\<rparr>
                     in if shield_duration p' \<le> 0 then p'\<lparr>shield_active := False\<rparr> else p')
               else p4)
     in s\<lparr>player := p5\<rparr>)"

text \<open>Input handlers that write simulation state.\<close>
definition onKeyDown :: "Key \<Rightarrow> Game \<Rightarrow> Game" where
  "onKeyDown k s = s\<lparr>keys := (keys s)(k := True)\<rparr>"

definition onKeyUp :: "Key \<Rightarrow> Game \<Rightarrow> Game" where
  "onKeyUp k s = s\<lparr>keys := (keys s)(k := False)\<rparr>"

text \<open>\<open>onMouseDown\<close> with the pointer locked; the argument is \<open>event.button\<close>.\<close>
definition onMouseDown :: "nat \<Rightarrow> Game \<Rightarrow> Game" where
  "onMouseDown button s =
    (let s1 = (if button = 0 then s\<lparr>keys := (keys s)(mouse0 := True)\<rparr> else s)
     in if button = 2 \<and> \<not> melee_attacking (player s1) \<and> \<not> reloading (player s1)
        then s1\<lparr>player := (player s1)\<lparr>isAiming := True\<rparr>\<rparr> else s1)"

definition onMouseUp :: "nat \<Rightarrow> Game \<Rightarrow> Game" where
  "onMouseUp button s =
    (let s1 = (if button = 0 then s\<lparr>keys := (keys s)(mouse0 := False)\<rparr> else s)
     in if button = 2 then s1\<lparr>player := (player s1)\<lparr>isAiming := False\<rparr>\<rparr> else s1)"


section \<open>Wave director\<close>

definition unlockSkills :: "Game \<Rightarrow> Game" where
  "unlockSkills s =
     emit EvMessage (s\<lparr>player := (player s)\<lparr>q_unlocked := True, z_unlocked := True\<rparr>\<rparr>)"

definition spawnDrone :: "Game \<Rightarrow> Game" where
  "spawnDrone s = s\<lparr>dronePos := Some (0, 0, 0)\<rparr>"

definition newWave :: "Game \<Rightarrow> Wave" where
  "newWave s =
     \<lparr>totalToKill = 10 + currentLevel s * 8, killedInWave = 0, spawnedInWave = 0,
      spawnInterval = max 0.5 ((if isNewGamePlus s then 1.0 else 1.5) - of_int (currentLevel s) * 0.1),
      spawnTimer = 1.5, maxConcurrent = (if isNewGamePlus s then 15 else 12)\<rparr>"

text \<open>
  The two places of \<open>startNextWave\<close> where the wave begins: the last step of \<open>showMessages\<close>
  (\<open>always = True\<close>, the wave message is always shown) and the branch without narration
  (the wave message is shown from level 2 on).
\<close>
definition beginWave :: "bool \<Rightarrow> Game \<Rightarrow> Game" where
  "beginWave always s =
    (let s1 = (changeGameState playing s)\<lparr>wave := newWave s\<rparr>;
         s2 = (if always \<or> currentLevel s1 > 1 then emit EvMessage s1 else s1);
         s3 = (if currentLevel s2 = 2 \<and> \<not> isNewGamePlus s2 then unlockSkills s2 else s2)
     in emit (EvWaveUpdate (currentLevel s3) 0 (totalToKill (wave s3))) s3)"

text \<open>\<open>showMessages(index)\<close>; \<open>messages\<close> holds the display durations of the narration.\<close>
definition showMessages :: "nat list \<Rightarrow> nat \<Rightarrow> Game \<Rightarrow> Game" where
  "showMessages messages index s =
    (if index < length messages
     then emit (EvTimeout (TShowMessages messages (index + 1)) (messages ! index)) (emit EvMessage s)
     else beginWave True s)"

definition startNextWave :: "Game \<Rightarrow> Game" where
  "startNextWave s =
    (let s1 = s\<lparr>currentLevel := currentLevel s + 1\<rparr>;
         (s2, m2) = (if currentLevel s1 = 3 \<and> \<not> shield_unlocked (player s1)
                     then (s1\<lparr>player := (player s1)\<lparr>shield_unlocked := True\<rparr>\<rparr>, [4000])
                     else (s1, []));
         (s3, m3) = (if currentLevel s2 = 4 \<and> \<not> drone_unlocked (player s2)
                     then (spawnDrone (s2\<lparr>player := (player s2)\<lparr>drone_unlocked := True\<rparr>\<rparr>),
                           m2 @ [4000])
                     else (s2, m2));
         (s4, m4) = (if currentLevel s3 = 3
                     then (s3\<lparr>weaponLevel := W2,
                              player := (player s3)
                                \<lparr>maxAmmoInMagazine := W_MAGAZINE_SIZE (WEAPON W2),
                                 reserveAmmo := reserveAmmo (player s3)
                                    + (W_INITIAL_RESERVE_AMMO (WEAPON W2)
                                       - W_INITIAL_RESERVE_AMMO (WEAPON W1))\<rparr>\<rparr>,
                           m3 @ [4000])
                     else (s3, m3))
     in if length m4 > 0 then showMessages m4 0 s4 else beginWave False s4)"

text \<open>The weighted choice of the enemy kind in \<open>spawnEnemy\<close>.\<close>
definition chooseEnemyType :: "int \<Rightarrow> real \<Rightarrow> EnemyType" where
  "chooseEnemyType level rand =
    (if level < 3 then (if rand < 0.6 then drone else scout)
     else if level = 3
     then (if rand < 0.4 then drone else if rand < 0.8 then scout else tank)
     else (if rand < 0.3 then drone else if rand < 0.6 then scout
           else if rand < 0.85 then tank else kamikaze))"

text \<open>The fields that \<open>spawnEnemy\<close> assigns to the new enemy.\<close>
definition makeEnemy :: "bool \<Rightarrow> int \<Rightarrow> EnemyType \<Rightarrow> vec3 \<Rightarrow> Enemy" where
  "makeEnemy ngp level ty position =
    (let enemyConfig = ENEMY ty;
         scale = (if ngp then 1.2 else 1)
     in \<lparr>e_hp = E_HP enemyConfig * scale * (1 + (of_int level - 1) * 0.1),
         e_damage = E_DAMAGE enemyConfig * scale * (1 + (of_int level - 1) * 0.1),
         e_speed = E_SPEED enemyConfig * (if ngp then 1.1 else 1),
         e_size = E_SIZE enemyConfig,
         e_type = ty,
         e_pos = position\<rparr>)"

definition spawnEnemy :: "Game \<Rightarrow> Game" where
  "spawnEnemy s =
    (let (rand, s1) = random s;
         ty = chooseEnemyType (currentLevel s1) rand;
         enemyConfig = ENEMY ty;
         spawnEdge = 98;
         (r2, s2) = random s1;
         angle = r2 * pi * 2;
         (yPos, s3) = (if ty = drone \<or> ty = scout \<or> ty = kamikaze
                       then (let (r3, s') = random s2 in (r3 * 5 + 3, s'))
                       else (E_SIZE enemyConfig / 2, s2));
         enemy = makeEnemy (isNewGamePlus s3) (currentLevel s3) ty
                   (cos angle * spawnEdge, yPos, sin angle * spawnEdge)
     in s3\<lparr>estore := (estore s3)(nextRef s3 := enemy),
           enemies := enemies s3 @ [nextRef s3],
           nextRef := Suc (nextRef s3)\<rparr>)"

definition updateWaveSpawning :: "real \<Rightarrow> Game \<Rightarrow> Game" where
  "updateWaveSpawning dt s =
    (if spawnedInWave (wave s) \<ge> totalToKill (wave s)
        \<or> int (length (enemies s)) \<ge> maxConcurrent (wave s) then s
     else
       let s1 = s\<lparr>wave := (wave s)\<lparr>spawnTimer := spawnTimer (wave s) - dt\<rparr>\<rparr>
       in if spawnTimer (wave s1) \<le> 0
          then (let s2 = spawnEnemy (s1\<lparr>wave := (wave s1)\<lparr>spawnTimer := spawnInterval (wave s1)\<rparr>\<rparr>)
                in s2\<lparr>wave := (wave s2)\<lparr>spawnedInWave := spawnedInWave (wave s2) + 1\<rparr>\<rparr>)
          else s1)"

section \<open>Boss encounter\<close>

text \<open>The continuation of \<open>triggerBossSequence\<close> after its \<open>await\<close>.\<close>
definition bossIntroArrived :: "Game \<Rightarrow> Game" where
  "bossIntroArrived s = emit (EvTimeout TSpawnBoss 3000) s"

text \<open>
  The callback scheduled by \<open>triggerBossSequence\<close>, with \<open>createBossMesh\<close> inlined. When the
  level has no boss configuration the callback stops with a TypeError in \<open>createBossMesh\<close>,
  after the message and the state change.
\<close>
definition spawnBoss :: "Frame \<Rightarrow> Game \<Rightarrow> Game" where
  "spawnBoss fr s =
    (let s1 = changeGameState boss_fight (emit EvMessage s);
         scale = (if isNewGamePlus s1 then 1.5 else 1)
     in case BOSS_BASE (currentLevel s1) of
          None \<Rightarrow> s1
        | Some cfg \<Rightarrow>
           let final = (currentLevel s1 = 5);
               b = \<lparr>b_hp = B_HP cfg * scale, b_maxHp = B_HP cfg * scale,
                    b_damage = B_DAMAGE cfg * scale,
                    b_speed = B_SPEED cfg * (if isNewGamePlus s1 then 1.2 else 1),
                    b_size = B_SIZE cfg, b_attackTimer = 0,
                    b_pos = (0, B_SIZE cfg / 2, - 80),
                    b_isFinalBoss = final,
                    b_weakPointHp = (if final then B_WEAK_POINT_HP cfg else None),
                    b_maxWeakPointHp = (if final then B_WEAK_POINT_HP cfg else None),
                    b_weakPointPos = (0, 0, 0), b_weakPointProgress = 0\<rparr>;
               s2 = s1\<lparr>bstore := (bstore s1)(nextRef s1 := b), boss := Some (nextRef s1),
                       nextRef := Suc (nextRef s1)\<rparr>
           in emit (EvBossUpdate (b_hp b) (b_maxHp b) (b_weakPointHp b)) s2)"

definition bossShootSimple :: "vec3 \<Rightarrow> bool \<Rightarrow> Game \<Rightarrow> Game" where
  "bossShootSimple direction isLaser s =
    (case boss s of
       None \<Rightarrow> s
     | Some b \<Rightarrow>
        let cfg = bossConfig (currentLevel s);
            bullet = \<lparr>bb_pos = b_pos (bstore s b),
                      bb_velocity = multiplyScalar direction (B_BULLET_SPEED cfg),
                      bb_isLaser = isLaser\<rparr>
        in s\<lparr>bossBullets := bossBullets s @ [bullet]\<rparr>)"

text \<open>\<open>Vector3.applyAxisAngle\<close> for the axis (0, 1, 0).\<close>
definition rotateY :: "vec3 \<Rightarrow> real \<Rightarrow> vec3" where
  "rotateY v a = (vx v * cos a + vz v * sin a, vy v, vz v * cos a - vx v * sin a)"

definition hazard :: "ParticleKind \<Rightarrow> vec3 \<Rightarrow> real \<Rightarrow> real \<Rightarrow> real \<Rightarrow> real \<Rightarrow> Particle" where
  "hazard kind position life dmg rate rotSpeed =
     \<lparr>p_kind = kind, p_lifespan = life, p_pos = position, p_velocity = (1, 0, 0), p_scale_x = 1,
      p_damage = dmg, p_expansionRate = rate, p_rotation_y = 0, p_rotationSpeed = rotSpeed\<rparr>"

definition executeBossAttack :: "Game \<Rightarrow> Game" where
  "executeBossAttack s =
    (case boss s of
       None \<Rightarrow> s
     | Some b \<Rightarrow>
        let cfg = bossConfig (currentLevel s);
            s1 = s\<lparr>bstore := (bstore s)(b := (bstore s b)\<lparr>b_attackTimer := B_ATTACK_COOLDOWN cfg\<rparr>)\<rparr>;
            bossPos = b_pos (bstore s1 b);
            dirToPlayer = normalize (subVectors (playerPos s1) bossPos);
            l = currentLevel s1
        in if l = 1 then bossShootSimple dirToPlayer False s1
           else if l = 2
           then fold (\<lambda>i. bossShootSimple (rotateY dirToPlayer (of_int i * pi / 16)) False)
                  [- 2, - 1, 0, 1, 2 :: int] s1
           else if l = 3
           then (let s2 = bossShootSimple dirToPlayer False s1
                 in s2\<lparr>particles := particles s2 @
                         [hazard Shockwave (vx bossPos, 0.1, vz bossPos) 3 (B_BULLET_DAMAGE cfg) 0 0]\<rparr>)
           else if l = 4
           then (let s2 = bossShootSimple dirToPlayer True s1
                 in s2\<lparr>particles := particles s2 @
                         [hazard ShockwaveRing (vx bossPos, 0.2, vz bossPos) 4 (B_BULLET_DAMAGE cfg) 25 0]\<rparr>)
           else if l = 5
           then (let (x, s2) = random s1;
                     attackType = \<lfloor>x * 2\<rfloor>
                 in if attackType = 0
                    then fold (\<lambda>i. emit (EvTimeout (TRingShot i) (i * 50))) [0 ..< 20] s2
                    else s2\<lparr>particles := particles s2 @
                              [hazard SweepingLaser (vx bossPos, 1.6, vz bossPos) 5
                                 (B_BULLET_DAMAGE cfg) 0 0.5]\<rparr>)
           else s1)"

text \<open>One of the twenty staggered callbacks of the tier-5 ring burst.\<close>
definition ringShot :: "nat \<Rightarrow> Game \<Rightarrow> Game" where
  "ringShot i s =
    (case boss s of
       None \<Rightarrow> s
     | Some b \<Rightarrow>
        let angle = (real i / 20) * pi * 2
        in bossShootSimple (cos angle, 0, sin angle) False s)"

text \<open>JavaScript \<open>x % 1\<close> on numbers: the result has the sign of \<open>x\<close>.\<close>
definition mod1 :: "real \<Rightarrow> real" where
  "mod1 x = x - of_int (if x \<ge> 0 then \<lfloor>x\<rfloor> else \<lceil>x\<rceil>)"

definition updateBoss :: "Frame \<Rightarrow> Game \<Rightarrow> Game" where
  "updateBoss fr s =
    (case boss s of
       None \<Rightarrow> s
     | Some b \<Rightarrow>
        let dt = deltaTime fr;
            bo = bstore s b;
            d = subVectors (playerPos s) (b_pos bo);
            dir = normalize (vx d, 0, vz d);
            bo1 = (if currentLevel s < 5
                   then bo\<lparr>b_pos := vadd (b_pos bo) (multiplyScalar dir (b_speed bo * dt))\<rparr>
                   else bo);
            bo2 = bo1\<lparr>b_attackTimer := b_attackTimer bo1 - dt\<rparr>;
            s1 = s\<lparr>bstore := (bstore s)(b := bo2)\<rparr>;
            s2 = (if b_attackTimer bo2 \<le> 0 then executeBossAttack s1 else s1);
            bo3 = bstore s2 b
        in if b_isFinalBoss bo3
           then (let pr = mod1 (b_weakPointProgress bo3 + dt * 0.1)
                 in s2\<lparr>bstore := (bstore s2)
                          (b := bo3\<lparr>b_weakPointProgress := pr,
                                     b_weakPointPos := weakPointPath fr pr\<rparr>)\<rparr>)
           else s2)"

fun updateBossBulletLoop :: "Frame \<Rightarrow> BossBullet list \<Rightarrow> Game \<Rightarrow> BossBullet list \<times> Game" where
  "updateBossBulletLoop fr [] s = ([], s)"
| "updateBossBulletLoop fr (b # bs) s =
    (let (kept, s1) = updateBossBulletLoop fr bs s;
         b1 = b\<lparr>bb_pos := vadd (bb_pos b) (multiplyScalar (bb_velocity b) (deltaTime fr))\<rparr>
     in if distanceTo (bb_pos b1) (playerPos s1) > 400 then (kept, s1)
        else if wallCollision fr b1 then (kept, createExplosion (bb_pos b1) 5 s1)
        else (b1 # kept, s1))"

definition updateBossBullets :: "Frame \<Rightarrow> Game \<Rightarrow> Game" where
  "updateBossBullets fr s =
    (let (kept, s1) = updateBossBulletLoop fr (bossBullets s) s in s1\<lparr>bossBullets := kept\<rparr>)"


section \<open>Per-kind updates, drone, hazards and the frame\<close>

definition moveEnemy :: "vec3 \<Rightarrow> real \<Rightarrow> Enemy \<Rightarrow> Enemy" where
  "moveEnemy target dt e =
    (let d = subVectors target (e_pos e);
         dir = normalize (if e_type e \<noteq> drone \<and> e_type e \<noteq> scout then (vx d, 0, vz d) else d)
     in e\<lparr>e_pos := vadd (e_pos e) (multiplyScalar dir (e_speed e * dt))\<rparr>)"

definition updateEnemies :: "real \<Rightarrow> Game \<Rightarrow> Game" where
  "updateEnemies dt s =
     s\<lparr>estore := fold (\<lambda>r st. st(r := moveEnemy (playerPos s) dt (st r))) (enemies s) (estore s)\<rparr>"

definition updateBullets :: "real \<Rightarrow> Game \<Rightarrow> Game" where
  "updateBullets dt s =
     s\<lparr>bullets :=
          filter (\<lambda>b. \<not> distanceTo (bu_pos b) (playerPos s) > 300)
            (map (\<lambda>b. b\<lparr>bu_pos := vadd (bu_pos b) (multiplyScalar (bu_velocity b) dt)\<rparr>) (bullets s)),
       droneBullets :=
          filter (\<lambda>b. \<not> distanceTo (db_pos b) (playerPos s) > 300)
            (map (\<lambda>b. b\<lparr>db_pos := vadd (db_pos b) (multiplyScalar (db_velocity b) dt)\<rparr>)
               (droneBullets s))\<rparr>"

definition targetHp :: "Game \<Rightarrow> Target \<Rightarrow> real" where
  "targetHp s t = (case t of TEnemy r \<Rightarrow> e_hp (estore s r) | TBoss b \<Rightarrow> b_hp (bstore s b))"

definition targetPos :: "Game \<Rightarrow> Target \<Rightarrow> vec3" where
  "targetPos s t = (case t of TEnemy r \<Rightarrow> e_pos (estore s r) | TBoss b \<Rightarrow> b_pos (bstore s b))"

definition findDroneTarget :: "vec3 \<Rightarrow> Game \<Rightarrow> Game" where
  "findDroneTarget dpos s =
    (let (closestDist, tgt) =
           fold (\<lambda>r (cd, tg).
                   let dist = distanceTo dpos (e_pos (estore s r))
                   in if dist < cd then (dist, Some (TEnemy r)) else (cd, tg))
                (enemies s) (DRONE_RANGE, None);
         tgt1 = (case boss s of
                   None \<Rightarrow> tgt
                 | Some b \<Rightarrow> if distanceTo dpos (b_pos (bstore s b)) < closestDist
                             then Some (TBoss b) else tgt)
     in s\<lparr>droneTarget := tgt1\<rparr>)"

definition droneShoot :: "vec3 \<Rightarrow> Game \<Rightarrow> Game" where
  "droneShoot dpos s =
    (case droneTarget s of
       None \<Rightarrow> s
     | Some t \<Rightarrow>
        let dir = normalize (subVectors (targetPos s t) dpos);
            bullet = \<lparr>db_pos = vadd dpos dir, db_velocity = multiplyScalar dir 80\<rparr>
        in s\<lparr>droneBullets := droneBullets s @ [bullet]\<rparr>)"

definition updateDrone :: "Frame \<Rightarrow> Game \<Rightarrow> Game" where
  "updateDrone fr s =
    (case dronePos s of
       None \<Rightarrow> s
     | Some dpos0 \<Rightarrow>
        let tpos = vadd (playerPos s) (- 2, 2, - 2);
            dpos = lerp dpos0 tpos 0.1;
            s1 = s\<lparr>dronePos := Some dpos\<rparr>;
            now = elapsedTime fr
        in if now > lastDroneShotTime s1 + DRONE_FIRE_RATE
           then (let s2 = (case droneTarget s1 of
                             None \<Rightarrow> findDroneTarget dpos s1
                           | Some t \<Rightarrow>
                              if targetHp s1 t \<le> 0 \<or> distanceTo dpos (targetPos s1 t) > DRONE_RANGE
                              then findDroneTarget dpos s1 else s1)
                 in if droneTarget s2 \<noteq> None
                    then (droneShoot dpos s2)\<lparr>lastDroneShotTime := now\<rparr>
                    else s2)
           else s1)"

text \<open>\<open>RingGeometry(0.1, 0.3, 64)\<close>: the inner radius of the shockwave mesh.\<close>
definition SHOCKWAVE_INNER_RADIUS :: real where "SHOCKWAVE_INNER_RADIUS = 0.1"

text \<open>
  The body of the loop of \<open>updateParticles\<close> for one particle: the particle after the
  frame and the state after the damage it may have dealt.
\<close>
definition particleStep :: "Frame \<Rightarrow> Particle \<Rightarrow> Game \<Rightarrow> Particle \<times> Game" where
  "particleStep fr p0 s =
    (let dt = deltaTime fr;
         p = p0\<lparr>p_lifespan := p_lifespan p0 - dt\<rparr>
     in if p_kind p = Shockwave
        then (let p1 = p\<lparr>p_scale_x := p_scale_x p + dt * 50\<rparr>;
                  playerDist = distanceTo (p_pos p1) (playerPos s)
              in (p1, if \<bar>playerDist - p_scale_x p1 * SHOCKWAVE_INNER_RADIUS\<bar> < 1.0
                      then playerTakeDamage (p_damage p1) s else s))
        else if p_kind p = ShockwaveRing
        then (let p1 = p\<lparr>p_scale_x := p_scale_x p + p_expansionRate p * dt\<rparr>;
                  playerDist = distanceTo (p_pos p1) (playerPos s)
              in if onGround (player s) \<and> \<bar>playerDist - p_scale_x p1\<bar> < 0.5
                 then (p1\<lparr>p_lifespan := 0\<rparr>, playerTakeDamage (p_damage p1) s)
                 else (p1, s))
        else if p_kind p = SweepingLaser
        then (let p1 = p\<lparr>p_rotation_y := p_rotation_y p + p_rotationSpeed p * dt\<rparr>
              in (p1, if laserSweepHit fr p1 (playerPos s)
                      then playerTakeDamage (p_damage p1 * dt) s else s))
        else (p\<lparr>p_pos := vadd (p_pos p) (multiplyScalar (p_velocity p) dt)\<rparr>, s))"

fun particleLoop :: "Frame \<Rightarrow> Particle list \<Rightarrow> Game \<Rightarrow> Particle list \<times> Game" where
  "particleLoop fr [] s = ([], s)"
| "particleLoop fr (p # ps) s =
    (let (kept, s1) = particleLoop fr ps s;
         (p1, s2) = particleStep fr p s1
     in (if p_lifespan p1 \<le> 0 then kept else p1 # kept, s2))"

definition updateParticles :: "Frame \<Rightarrow> Game \<Rightarrow> Game" where
  "updateParticles fr s =
    (let (kept, s1) = particleLoop fr (particles s) s in s1\<lparr>particles := kept\<rparr>)"

text \<open>
  One frame (\<open>animate\<close>). \<open>updatePickups\<close> and \<open>updateGrenades\<close> change nothing but the
  look of the scene; so do the sky, light and screen-shake updates.
\<close>
definition animate :: "Frame \<Rightarrow> Game \<Rightarrow> Game" where
  "animate fr s =
    (if gameState s = paused then s
     else
       let dt = deltaTime fr;
           s1 = (if gameState s = playing \<or> gameState s = boss_fight
                 then (let a = updatePlayer fr s;
                           b = updateEnemies dt a;
                           c = updateBullets dt b;
                           d = (if drone_unlocked (player c) then updateDrone fr c else c);
                           e = checkCollisions fr d;
                           f = updateSkills dt e;
                           g = updateMelee dt f
                       in emit EvStats g)
                 else s);
           s2 = (if gameState s1 = playing then updateWaveSpawning dt s1 else s1);
           s3 = (if gameState s2 = boss_fight \<and> boss s2 \<noteq> None
                 then (let a = updateBossBullets fr (updateBoss fr s2)
                       in case boss a of
                            None \<Rightarrow> a
                          | Some r \<Rightarrow>
                             emit (EvBossUpdate (b_hp (bstore a r)) (b_maxHp (bstore a r))
                                     (b_weakPointHp (bstore a r))) a)
                 else s2)
       in updateParticles fr s3)"

section \<open>Reset and pause\<close>

definition startGame :: "Game \<Rightarrow> Game" where
  "startGame s =
    (if isNewGamePlus s then emit (EvTimeout TStartNextWave 4000) (emit EvMessage s)
     else emit (EvTimeout TStartNextWave 5000) (emit EvMessage s))"

definition resetGame :: "bool \<Rightarrow> Game \<Rightarrow> Game" where
  "resetGame isNGP s =
    (let weaponConfig = WEAPON W1;
         p = \<lparr>hp = PLAYER_HP, maxHp = PLAYER_HP, stamina = PLAYER_STAMINA,
              maxStamina = PLAYER_STAMINA,
              ammoInMagazine = W_MAGAZINE_SIZE weaponConfig,
              maxAmmoInMagazine = W_MAGAZINE_SIZE weaponConfig,
              reserveAmmo = W_INITIAL_RESERVE_AMMO weaponConfig,
              reloading = False, reloadTime = 0, isAiming = False,
              q_unlocked = isNGP, q_cooldown = 0,
              z_unlocked = isNGP, z_cooldown = 0, z_active = False, z_duration = 0,
              melee_attacking = False, melee_cooldown = 0, melee_swingTime = 0,
              lastHitTime = 0,
              shield_unlocked = False, shield_cooldown = 0, shield_active = False,
              shield_duration = 0,
              drone_unlocked = False,
              velocity_y = 0, onGround = False, sprinting = False, lastShotTime = 0\<rparr>;
         s1 = s\<lparr>isNewGamePlus := isNGP, currentLevel := 0, weaponLevel := W1,
                 previousGameState := None, playerPos := (0, 1.6, 0), player := p,
                 enemies := [], bullets := [], bossBullets := [], pickups := [],
                 particles := [], droneBullets := [], boss := None, dronePos := None\<rparr>
     in startGame (emit EvBossUpdateNull s1))"

definition togglePause :: "Game \<Rightarrow> Game" where
  "togglePause s =
    (if gameState s = paused
     then (case previousGameState s of
             Some g \<Rightarrow> (changeGameState g s)\<lparr>previousGameState := None\<rparr>
           | None \<Rightarrow> s)
     else if gameState s = playing \<or> gameState s = boss_fight
     then changeGameState paused (s\<lparr>previousGameState := Some (gameState s)\<rparr>)
     else s)"

definition quitToMainMenu :: "Game \<Rightarrow> Game" where
  "quitToMainMenu s = emit EvMessage (resetGame False (changeGameState start_screen s))"

section \<open>Invariants and sample states\<close>

text \<open>
  The state of a freshly constructed \<open>Game\<close> object, from the field initialisers of the
  class. \<open>player\<close> and \<open>wave\<close> are declared without initialiser and are assigned by
  \<open>resetGame\<close> and \<open>startNextWave\<close> before they are read; no object has been allocated yet.
  The argument is the stream that \<open>Math.random\<close> will produce.
\<close>
definition newGame :: "(nat \<Rightarrow> real) \<Rightarrow> Game" where
  "newGame rs =
    \<lparr>gameState = start_screen, previousGameState = None, isNewGamePlus = False,
     currentLevel = 0, weaponLevel = W1,
     player = \<lparr>hp = 0, maxHp = 0, stamina = 0, maxStamina = 0, ammoInMagazine = 0,
               maxAmmoInMagazine = 0, reserveAmmo = 0, reloading = False, reloadTime = 0,
               isAiming = False, q_unlocked = False, q_cooldown = 0, z_unlocked = False,
               z_cooldown = 0, z_active = False, z_duration = 0, melee_attacking = False,
               melee_cooldown = 0, melee_swingTime = 0, lastHitTime = 0,
               shield_unlocked = False, shield_cooldown = 0, shield_active = False,
               shield_duration = 0, drone_unlocked = False, velocity_y = 0, onGround = False,
               sprinting = False, lastShotTime = 0\<rparr>,
     playerPos = (0, 0, 0),
     wave = \<lparr>totalToKill = 0, killedInWave = 0, spawnedInWave = 0, spawnInterval = 0,
             spawnTimer = 0, maxConcurrent = 0\<rparr>,
     boss = None,
     bstore = (\<lambda>_. \<lparr>b_hp = 0, b_maxHp = 0, b_damage = 0, b_speed = 0, b_size = 0,
                     b_attackTimer = 0, b_pos = (0, 0, 0), b_isFinalBoss = False,
                     b_weakPointHp = None, b_maxWeakPointHp = None, b_weakPointPos = (0, 0, 0),
                     b_weakPointProgress = 0\<rparr>),
     keys = (\<lambda>_. False),
     enemies = [],
     estore = (\<lambda>_. \<lparr>e_hp = 0, e_damage = 0, e_speed = 0, e_size = 0, e_type = drone,
                     e_pos = (0, 0, 0)\<rparr>),
     nextRef = 0, bullets = [], bossBullets = [], dronePos = None, droneBullets = [],
     droneTarget = None, lastDroneShotTime = 0, pickups = [], particles = [],
     rnd = rs, rndIdx = 0, events = []\<rparr>"

text \<open>A new normal-mode game.\<close>
definition freshGame :: Game where
  "freshGame = resetGame False (newGame (\<lambda>_. 0))"

text \<open>The same game with the shield switched on.\<close>
definition shieldedGame :: Game where
  "shieldedGame = useSkillG freshGame"

text \<open>
  The invariants of the simulation state that the health bounds rest on. Damage values are
  never negative, the enemies in the registry are distinct live objects, and a boss or a
  boss bullet only exists at a level that has a boss configuration.
\<close>
definition playerOk :: "PlayerStats \<Rightarrow> bool" where
  "playerOk p \<longleftrightarrow> 0 \<le> hp p \<and> hp p \<le> maxHp p \<and> 0 \<le> stamina p \<and> stamina p \<le> maxStamina p
                 \<and> maxStamina p = PLAYER_STAMINA"

definition enemiesOk :: "Game \<Rightarrow> bool" where
  "enemiesOk s \<longleftrightarrow> distinct (enemies s)
      \<and> (\<forall>r \<in> set (enemies s). r < nextRef s \<and> 0 < e_hp (estore s r) \<and> 0 \<le> e_damage (estore s r))"

definition bossOk :: "Game \<Rightarrow> bool" where
  "bossOk s \<longleftrightarrow> (\<forall>b. boss s = Some b \<longrightarrow> 0 < b_hp (bstore s b) \<and> 0 \<le> b_damage (bstore s b))"

definition hazardsOk :: "Game \<Rightarrow> bool" where
  "hazardsOk s \<longleftrightarrow> (\<forall>p \<in> set (particles s). 0 \<le> p_damage p)"

definition levelOk :: "Game \<Rightarrow> bool" where
  "levelOk s \<longleftrightarrow> 0 \<le> currentLevel s
      \<and> (boss s \<noteq> None \<or> bossBullets s \<noteq> [] \<longrightarrow> 1 \<le> currentLevel s \<and> currentLevel s \<le> 5)"

definition wellFormed :: "Game \<Rightarrow> bool" where
  "wellFormed s \<longleftrightarrow> playerOk (player s) \<and> enemiesOk s \<and> bossOk s \<and> hazardsOk s \<and> levelOk s"


text \<open>
  Proof devices: \<open>untouched s s'\<close> lists the fields that nothing in the damage model writes,
  and \<open>qSame s s'\<close> says that the cooldown of the heal skill and its key are as before.
\<close>
definition untouched :: "Game \<Rightarrow> Game \<Rightarrow> bool" where
  "untouched s s' \<longleftrightarrow>
     player s' = player s \<and> keys s' = keys s \<and> playerPos s' = playerPos s
     \<and> currentLevel s' = currentLevel s \<and> isNewGamePlus s' = isNewGamePlus s
     \<and> weaponLevel s' = weaponLevel s \<and> nextRef s' = nextRef s \<and> rnd s' = rnd s
     \<and> previousGameState s' = previousGameState s \<and> dronePos s' = dronePos s
     \<and> droneTarget s' = droneTarget s \<and> lastDroneShotTime s' = lastDroneShotTime s"


definition qSame :: "Game \<Rightarrow> Game \<Rightarrow> bool" where
  "qSame s s' \<longleftrightarrow> q_cooldown (player s') = q_cooldown (player s) \<and> keys s' KeyQ = keys s KeyQ"


text \<open>Sample inputs: a frame of 1/60 s at clock time 10 s, and the first wave of a new game.\<close>
definition frame0 :: Frame where
  "frame0 = \<lparr>deltaTime = 1 / 60, elapsedTime = 10, applyPlayerRotation = (\<lambda>v. v),
             cameraDirection = (0, 0, - 1), muzzlePosition = (0, 1.5, - 1),
             wallCollision = (\<lambda>_. False), laserSweepHit = (\<lambda>_ _. False),
             weakPointPath = (\<lambda>_. (0, 0, 0))\<rparr>"

definition wave1Game :: Game where
  "wave1Game = startNextWave freshGame"

text \<open>Scenario 3: skills unlocked, 50 of 100 health, the heal key held down.\<close>
definition woundedGame :: Game where
  "woundedGame =
     onKeyDown KeyQ ((unlockSkills wave1Game)\<lparr>player := (player (unlockSkills wave1Game))\<lparr>hp := 50\<rparr>\<rparr>)"

text \<open>The same game after the heal, with the key released.\<close>
definition healedGame :: Game where
  "healedGame = onKeyUp KeyQ (updateActionKeys frame0 woundedGame)"

section \<open>Basic facts\<close>

lemmas fx_defs = emit_def changeGameState_def createExplosion_def triggerScreenShake_def

section \<open>Shield\<close>

lemma playerTakeDamage_shield:
  "shield_active (player s) \<Longrightarrow> player (playerTakeDamage amount s) = player s"
  by (simp add: playerTakeDamage_def fx_defs)

lemma spawnPickup_player [simp]: "player (spawnPickup pos s) = player s"
  by (simp add: spawnPickup_def random_def Let_def)

lemma triggerBossSequence_player [simp]: "player (triggerBossSequence s) = player s"
  by (simp add: triggerBossSequence_def fx_defs)

lemma onEnemyDefeated_form:
  "onEnemyDefeated r i s =
     (let e = estore s r;
          D = (rnd s (rndIdx s) < E_DROP_CHANCE (ENEMY (e_type e)));
          T = (totalToKill (wave s) \<le> killedInWave (wave s) + 1 \<and> splice1 i (enemies s) = [])
      in s\<lparr>gameState := (if T then wave_transition else gameState s),
           enemies := splice1 i (enemies s),
           pickups := (if D then pickups s @
              [\<lparr>pk_type = (if rnd s (Suc (rndIdx s)) * (DROP_WEIGHT_AMMO + DROP_WEIGHT_HEALTH) < DROP_WEIGHT_AMMO
                             then ammo else health),
                pk_pos = (vx (e_pos e), 0.5, vz (e_pos e))\<rparr>] else pickups s),
           wave := (wave s)\<lparr>killedInWave := killedInWave (wave s) + 1\<rparr>,
           rndIdx := (if D then Suc (Suc (rndIdx s)) else Suc (rndIdx s)),
           events := (if T then [EvBossIntroRequest (currentLevel s) (isNewGamePlus s), EvMessage,
                                 EvStateChange wave_transition] else [])
              @ EvWaveUpdate (currentLevel s) (killedInWave (wave s) + 1) (totalToKill (wave s))
              # EvExplosion (e_pos e) 40 # events s\<rparr>)"
  by (simp add: onEnemyDefeated_def random_def Let_def fx_defs spawnPickup_def
        triggerBossSequence_def del: ENEMY.simps)

lemma onEnemyDefeated_player [simp]: "player (onEnemyDefeated r i s) = player s"
  by (simp add: onEnemyDefeated_form Let_def del: ENEMY.simps)

lemma onBossDefeated_form:
  "onBossDefeated s =
    (case boss s of None \<Rightarrow> s
     | Some b \<Rightarrow>
      s\<lparr>gameState := (if currentLevel s \<ge> MAX_LEVEL then victory else wave_transition),
        boss := None, bossBullets := [],
        particles := filter (\<lambda>p. \<not> isHazard p) (particles s),
        events := (if currentLevel s \<ge> MAX_LEVEL then [EvVictory, EvStateChange victory]
                   else [EvTimeout TStartNextWave 4000, EvMessage, EvStateChange wave_transition])
            @ EvBossUpdateNull # EvExplosion (b_pos (bstore s b)) 200 # events s\<rparr>)"
  by (simp add: onBossDefeated_def Let_def fx_defs split: option.splits)

lemma onBossDefeated_player [simp]: "player (onBossDefeated s) = player s"
  by (simp add: onBossDefeated_form split: option.splits)

lemma bossHpSub_player [simp]: "player (bossHpSub d s) = player s"
  by (simp add: bossHpSub_def Let_def split: option.splits)

lemma dealDamageWith_player:
  "(\<And>p r d s'. player (ex p r d s') = player s') \<Longrightarrow>
   player (dealDamageWith ex t d f s) = player s"
  by (simp add: dealDamageWith_def Let_def split: Target.splits)

lemma explosionLoop_player [simp]: "player (explosionLoop i p r d s) = player s"
  by (induction i arbitrary: s) (simp_all add: dealDamageWith_player)

lemma triggerExplosion_player [simp]: "player (triggerExplosion p r d s) = player s"
  by (simp add: triggerExplosion_def Let_def fx_defs dealDamageWith_player split: option.splits)

lemma dealDamageTo_player [simp]: "player (dealDamageTo t d f s) = player s"
  by (simp add: dealDamageTo_def dealDamageWith_player)

lemma contactDamage_shield:
  "shield_active (player s) \<Longrightarrow> hp (player (contactDamage now s)) = hp (player s)"
  by (simp add: contactDamage_def setLastHitTime_def playerTakeDamage_shield
           split: option.splits)

lemma bossBulletLoop_shield:
  "shield_active (player s) \<Longrightarrow> player (snd (bossBulletLoop bs s)) = player s"
  by (induction bs) (simp_all add: Let_def createExplosion_def emit_def playerTakeDamage_shield
        case_prod_beta)

lemma checkBossBulletCollisions_shield:
  "shield_active (player s) \<Longrightarrow> player (checkBossBulletCollisions s) = player s"
  by (simp add: checkBossBulletCollisions_def case_prod_beta bossBulletLoop_shield)

lemma particleStep_shield:
  "shield_active (player s) \<Longrightarrow> player (snd (particleStep fr p s)) = player s"
  by (simp add: particleStep_def Let_def playerTakeDamage_shield)

lemma particleLoop_shield:
  "shield_active (player s) \<Longrightarrow> player (snd (particleLoop fr ps s)) = player s"
  by (induction ps) (simp_all add: Let_def case_prod_beta particleStep_shield)

lemma updateParticles_shield:
  "shield_active (player s) \<Longrightarrow> player (updateParticles fr s) = player s"
  by (simp add: updateParticles_def case_prod_beta particleLoop_shield)

text \<open>
  Claim C3. While \<open>shield.active\<close> holds, every path that applies damage to the player
  leaves the player's \<open>hp\<close> unchanged, whatever the amount: \<open>playerTakeDamage\<close> itself, and
  its callers for enemy and boss contact (\<open>contactDamage\<close>), boss bullets
  (\<open>checkBossBulletCollisions\<close>), and the shockwave, ring and sweeping-laser hazards (one
  particle in \<open>particleStep\<close>, all of them in \<open>updateParticles\<close>).
\<close>
theorem shield_law:
  assumes "shield_active (player s)"
  shows "hp (player (playerTakeDamage amount s)) = hp (player s)
       \<and> hp (player (contactDamage now s)) = hp (player s)
       \<and> hp (player (checkBossBulletCollisions s)) = hp (player s)
       \<and> hp (player (snd (particleStep fr p s))) = hp (player s)
       \<and> hp (player (updateParticles fr s)) = hp (player s)"
  using assms
  by (simp add: playerTakeDamage_shield contactDamage_shield checkBossBulletCollisions_shield
        particleStep_shield updateParticles_shield)

lemma shieldedGame_player:
  "shield_active (player shieldedGame) \<and> hp (player shieldedGame) = 100"
  by (simp add: shieldedGame_def freshGame_def useSkillG_def resetGame_def startGame_def
        newGame_def emit_def Let_def PLAYER_HP_def)

theorem shield_law_witness:
  "shield_active (player shieldedGame)
   \<and> hp (player (playerTakeDamage 40 shieldedGame)) = 100"
  using shield_law[of shieldedGame 40] shieldedGame_player by simp

section \<open>Preservation of the invariants\<close>

lemmas ok_defs = playerOk_def enemiesOk_def bossOk_def hazardsOk_def levelOk_def

lemma splice1_indexOf: "r \<in> set xs \<Longrightarrow> splice1 (indexOf r xs) xs = remove1 r xs"
  by (induction xs) (auto simp: splice1_def indexOf_def)

lemma spawnPickup_wf: "wellFormed s \<Longrightarrow> wellFormed (spawnPickup pos s)"
  by (simp add: wellFormed_def ok_defs spawnPickup_def random_def Let_def)

lemma triggerBossSequence_wf: "wellFormed s \<Longrightarrow> wellFormed (triggerBossSequence s)"
  by (simp add: wellFormed_def ok_defs triggerBossSequence_def fx_defs)

lemma onEnemyDefeated_wf:
  assumes "playerOk (player s)" "bossOk s" "hazardsOk s" "levelOk s" "distinct (enemies s)"
    "\<forall>q \<in> set (enemies s). q < nextRef s \<and> 0 \<le> e_damage (estore s q)
              \<and> (q \<noteq> r \<longrightarrow> 0 < e_hp (estore s q))"
    "r \<in> set (enemies s)"
  shows "wellFormed (onEnemyDefeated r (indexOf r (enemies s)) s)"
  using assms
  by (simp add: onEnemyDefeated_form Let_def wellFormed_def ok_defs splice1_indexOf del: ENEMY.simps)

lemma onBossDefeated_wf: "wellFormed s \<Longrightarrow> wellFormed (onBossDefeated s)"
  by (simp add: onBossDefeated_form wellFormed_def ok_defs split: option.splits)

lemma bossHpSub_wf: "wellFormed s \<Longrightarrow> wellFormed (bossHpSub d s)"
  by (auto simp add: bossHpSub_def Let_def onBossDefeated_form wellFormed_def ok_defs split: option.splits)

lemma dealDamageWith_wf:
  assumes ex: "\<And>p r d' s'. wellFormed s' \<Longrightarrow> wellFormed (ex p r d' s')"
    and wf: "wellFormed s"
  shows "wellFormed (dealDamageWith ex t d f s)"
proof (cases t)
  case (TEnemy r)
  show ?thesis
  proof (cases "e_hp (estore s r) \<le> 0")
    case True
    with TEnemy wf show ?thesis by (simp add: dealDamageWith_def)
  next
    case alive: False
    define s1 where "s1 =
       (if e_type (estore s r) = kamikaze \<and> \<not> f
        then (let s' = ex (e_pos (estore s r)) (e_size (estore s r) * 5) (e_damage (estore s r)) s
              in s'\<lparr>estore := (estore s')(r := (estore s' r)\<lparr>e_hp := 0\<rparr>)\<rparr>)
        else s\<lparr>estore := (estore s)(r := (estore s r)\<lparr>e_hp := e_hp (estore s r) - d\<rparr>)\<rparr>)"
    have res: "dealDamageWith ex t d f s =
        (if e_hp (estore s1 r) \<le> 0
         then (if r \<in> set (enemies s1) then onEnemyDefeated r (indexOf r (enemies s1)) s1 else s1)
         else s1)"
      using TEnemy alive unfolding dealDamageWith_def s1_def Let_def by simp
    have others: "playerOk (player s1) \<and> bossOk s1 \<and> hazardsOk s1 \<and> levelOk s1
        \<and> distinct (enemies s1)
        \<and> (\<forall>q \<in> set (enemies s1). q < nextRef s1 \<and> 0 \<le> e_damage (estore s1 q)
              \<and> (q \<noteq> r \<longrightarrow> 0 < e_hp (estore s1 q)))"
    proof (cases "e_type (estore s r) = kamikaze \<and> \<not> f")
      case True
      have "wellFormed (ex (e_pos (estore s r)) (e_size (estore s r) * 5) (e_damage (estore s r)) s)"
        using wf by (rule ex)
      with True show ?thesis
        by (simp add: s1_def Let_def wellFormed_def ok_defs)
    next
      case False
      then have s1e: "s1 = s\<lparr>estore := (estore s)(r := (estore s r)\<lparr>e_hp := e_hp (estore s r) - d\<rparr>)\<rparr>"
        unfolding s1_def by (rule if_not_P)
      show ?thesis unfolding s1e using wf
        by (auto simp add: wellFormed_def ok_defs)
    qed
    show ?thesis
    proof (cases "e_hp (estore s1 r) \<le> 0")
      case dead: True
      show ?thesis
      proof (cases "r \<in> set (enemies s1)")
        case True
        with dead res have eq: "dealDamageWith ex t d f s = onEnemyDefeated r (indexOf r (enemies s1)) s1"
          by simp
        show ?thesis unfolding eq
          using others True by (intro onEnemyDefeated_wf) simp_all
      next
        case False
        with dead res have eq: "dealDamageWith ex t d f s = s1" by simp
        show ?thesis unfolding eq using others False
          by (auto simp add: wellFormed_def enemiesOk_def)
      qed
    next
      case False
      with res have eq: "dealDamageWith ex t d f s = s1" by simp
      show ?thesis unfolding eq using others False
        by (auto simp add: wellFormed_def enemiesOk_def)
    qed
  qed
next
  case (TBoss b)
  show ?thesis
  proof (cases "b_hp (bstore s b) \<le> 0 \<or> b_isFinalBoss (bstore s b)")
    case True
    with TBoss wf show ?thesis by (auto simp add: dealDamageWith_def Let_def)
  next
    case False
    let ?s1 = "s\<lparr>bstore := (bstore s)(b := (bstore s b)\<lparr>b_hp := b_hp (bstore s b) - d\<rparr>)\<rparr>"
    show ?thesis
    proof (cases "boss s = Some b")
      case True
      then have "dealDamageWith ex t d f s = bossHpSub d s"
        using False TBoss by (simp add: dealDamageWith_def bossHpSub_def Let_def)
      then show ?thesis using wf by (simp add: bossHpSub_wf)
    next
      case nb: False
      then have "dealDamageWith ex t d f s = ?s1"
        using False TBoss by (simp add: dealDamageWith_def Let_def)
      moreover have "wellFormed ?s1" using wf nb by (auto simp add: wellFormed_def ok_defs)
      ultimately show ?thesis by simp
    qed
  qed
qed

lemma explosionLoop_wf:
  "wellFormed s \<Longrightarrow> wellFormed (explosionLoop i p r d s)"
  by (induction i arbitrary: s) (simp_all add: dealDamageWith_wf)

lemma triggerExplosion_wf:
  assumes "wellFormed s" shows "wellFormed (triggerExplosion p r d s)"
proof -
  have "wellFormed (triggerScreenShake (createExplosion p 50 s))"
    using assms by (simp add: wellFormed_def ok_defs fx_defs)
  then have "wellFormed (explosionLoop (length (enemies (triggerScreenShake (createExplosion p 50 s)))) p r d
     (triggerScreenShake (createExplosion p 50 s)))"
    by (rule explosionLoop_wf)
  then show ?thesis
    by (simp add: triggerExplosion_def Let_def bossHpSub_wf dealDamageWith_wf split: option.splits)
qed

lemma dealDamageTo_wf: "wellFormed s \<Longrightarrow> wellFormed (dealDamageTo t d f s)"
  by (simp add: dealDamageTo_def dealDamageWith_wf triggerExplosion_wf)


lemma find_Some_mem: "find P xs = Some x \<Longrightarrow> x \<in> set xs \<and> P x"
  by (induction xs) (auto split: if_splits)

lemma findEnemy_mem: "findEnemy P s = Some r \<Longrightarrow> r \<in> set (enemies s)"
  using find_Some_mem[of "\<lambda>r. P (estore s r)" "rev (enemies s)" r] by (simp add: findEnemy_def)

lemma wf_bullets_upd [simp]: "wellFormed (s\<lparr>bullets := x\<rparr>) = wellFormed s"
  by (simp add: wellFormed_def ok_defs)

lemma wf_droneBullets_upd [simp]: "wellFormed (s\<lparr>droneBullets := x\<rparr>) = wellFormed s"
  by (simp add: wellFormed_def ok_defs)

lemma wf_pickups_upd [simp]: "wellFormed (s\<lparr>pickups := x\<rparr>) = wellFormed s"
  by (simp add: wellFormed_def ok_defs)

lemma wf_events_upd [simp]: "wellFormed (s\<lparr>events := x\<rparr>) = wellFormed s"
  by (simp add: wellFormed_def ok_defs)

lemma wf_emit [simp]: "wellFormed (emit e s) = wellFormed s"
  by (simp add: emit_def)

lemma wf_createExplosion [simp]: "wellFormed (createExplosion p n s) = wellFormed s"
  by (simp add: createExplosion_def)

lemma bulletAfterHit_wf: "wellFormed s \<Longrightarrow> wellFormed (snd (bulletAfterHit b p s))"
  by (simp add: bulletAfterHit_def Let_def triggerExplosion_wf)

lemma playerBulletStep_wf: "wellFormed s \<Longrightarrow> wellFormed (snd (playerBulletStep b s))"
  by (simp add: playerBulletStep_def Let_def bulletAfterHit_wf dealDamageTo_wf bossHpSub_wf
        split: option.splits)

lemma playerBulletLoop_wf: "wellFormed s \<Longrightarrow> wellFormed (snd (playerBulletLoop bs s))"
  by (induction bs) (simp_all add: Let_def case_prod_beta playerBulletStep_wf)

lemma droneBulletStep_wf: "wellFormed s \<Longrightarrow> wellFormed (snd (droneBulletStep b s))"
  by (simp add: droneBulletStep_def Let_def dealDamageTo_wf bossHpSub_wf split: option.splits)

lemma droneBulletLoop_wf: "wellFormed s \<Longrightarrow> wellFormed (snd (droneBulletLoop bs s))"
  by (induction bs) (simp_all add: Let_def case_prod_beta droneBulletStep_wf)

lemma checkBulletCollisions_wf: "wellFormed s \<Longrightarrow> wellFormed (checkBulletCollisions s)"
  by (simp add: checkBulletCollisions_def Let_def case_prod_beta playerBulletLoop_wf
        droneBulletLoop_wf)

lemma playerTakeDamage_wf:
  "wellFormed s \<Longrightarrow> 0 \<le> amount \<Longrightarrow> wellFormed (playerTakeDamage amount s)"
  by (simp add: playerTakeDamage_def Let_def fx_defs wellFormed_def ok_defs)

lemma playerTakeDamage_level [simp]:
  "currentLevel (playerTakeDamage amount s) = currentLevel s"
  by (simp add: playerTakeDamage_def Let_def fx_defs)

lemma bossConfig_damage: "1 \<le> l \<Longrightarrow> l \<le> 5 \<Longrightarrow> 0 \<le> B_BULLET_DAMAGE (bossConfig l)"
  by (simp add: bossConfig_def BOSS_BASE_def)

lemma bossBulletLoop_wf:
  "wellFormed s \<Longrightarrow> 1 \<le> currentLevel s \<Longrightarrow> currentLevel s \<le> 5 \<Longrightarrow>
   wellFormed (snd (bossBulletLoop bs s)) \<and> currentLevel (snd (bossBulletLoop bs s)) = currentLevel s"
  by (induction bs) (simp_all add: Let_def case_prod_beta playerTakeDamage_wf bossConfig_damage
       createExplosion_def emit_def)

lemma bossBulletLoop_kept: "fst (bossBulletLoop bs s) \<noteq> [] \<Longrightarrow> bs \<noteq> []"
  by (cases bs) simp_all

lemma wf_bossBullets_upd:
  "wellFormed s \<Longrightarrow> (x \<noteq> [] \<longrightarrow> bossBullets s \<noteq> []) \<Longrightarrow> wellFormed (s\<lparr>bossBullets := x\<rparr>)"
  by (auto simp add: wellFormed_def ok_defs)

lemma bossBulletLoop_bossBullets [simp]:
  "bossBullets (snd (bossBulletLoop bs s)) = bossBullets s"
  by (induction bs) (simp_all add: Let_def case_prod_beta playerTakeDamage_def fx_defs)

lemma checkBossBulletCollisions_wf:
  assumes "wellFormed s" shows "wellFormed (checkBossBulletCollisions s)"
proof (cases "bossBullets s = []")
  case True
  with assms show ?thesis by (simp add: checkBossBulletCollisions_def wellFormed_def ok_defs)
next
  case False
  with assms have l: "1 \<le> currentLevel s" "currentLevel s \<le> 5"
    by (simp_all add: wellFormed_def levelOk_def)
  have "wellFormed (snd (bossBulletLoop (bossBullets s) s))"
    using bossBulletLoop_wf[OF assms l] by simp
  then show ?thesis using False
    by (simp add: checkBossBulletCollisions_def case_prod_beta wf_bossBullets_upd)
qed

lemma setLastHitTime_wf [simp]: "wellFormed (setLastHitTime t s) = wellFormed s"
  by (simp add: setLastHitTime_def wellFormed_def ok_defs)

lemma contactDamage_wf: "wellFormed s \<Longrightarrow> wellFormed (contactDamage now s)"
proof -
  assume wf: "wellFormed s"
  have e: "\<And>r. r \<in> set (enemies s) \<Longrightarrow> 0 \<le> e_damage (estore s r)"
    using wf by (simp add: wellFormed_def enemiesOk_def)
  have b: "\<And>r. boss s = Some r \<Longrightarrow> 0 \<le> b_damage (bstore s r)"
    using wf by (simp add: wellFormed_def bossOk_def)
  show ?thesis
    using wf
    by (auto simp add: contactDamage_def dealDamageTo_wf playerTakeDamage_wf e b
          dest: findEnemy_mem split: option.splits)
qed

lemma collectPickup_wf: "wellFormed s \<Longrightarrow> wellFormed (collectPickup pk s)"
  by (simp add: collectPickup_def Let_def wellFormed_def ok_defs PICKUPS_HEALTH_AMOUNT_def)

lemma pickupLoop_wf: "wellFormed s \<Longrightarrow> wellFormed (snd (pickupLoop pks s))"
  by (induction pks) (simp_all add: Let_def case_prod_beta collectPickup_wf)

lemma collectPickups_wf: "wellFormed s \<Longrightarrow> wellFormed (collectPickups s)"
  by (simp add: collectPickups_def case_prod_beta pickupLoop_wf)

lemma checkCollisions_wf: "wellFormed s \<Longrightarrow> wellFormed (checkCollisions fr s)"
  by (simp add: checkCollisions_def checkPlayerCollisions_def collectPickups_wf contactDamage_wf
       checkBossBulletCollisions_wf checkBulletCollisions_wf)


lemma wf_keys_upd [simp]: "wellFormed (s\<lparr>keys := x\<rparr>) = wellFormed s"
  by (simp add: wellFormed_def ok_defs)

lemma wf_playerPos_upd [simp]: "wellFormed (s\<lparr>playerPos := x\<rparr>) = wellFormed s"
  by (simp add: wellFormed_def ok_defs)

lemma wf_rndIdx_upd [simp]: "wellFormed (s\<lparr>rndIdx := x\<rparr>) = wellFormed s"
  by (simp add: wellFormed_def ok_defs)

lemma wf_player_upd:
  "wellFormed s \<Longrightarrow> playerOk p \<Longrightarrow> wellFormed (s\<lparr>player := p\<rparr>)"
  by (simp add: wellFormed_def ok_defs)

lemma wf_playerOk: "wellFormed s \<Longrightarrow> playerOk (player s)"
  by (simp add: wellFormed_def)

lemmas proj_if =
  if_distrib[where f=hp] if_distrib[where f=maxHp] if_distrib[where f=stamina]
  if_distrib[where f=maxStamina]

lemma playerOk_cong:
  "playerOk p \<Longrightarrow> hp q = hp p \<Longrightarrow> maxHp q = maxHp p \<Longrightarrow> maxStamina q = maxStamina p
   \<Longrightarrow> 0 \<le> stamina q \<and> stamina q \<le> PLAYER_STAMINA \<Longrightarrow> playerOk q"
  by (simp add: playerOk_def)

lemma wf_player_only:
  "wellFormed s \<Longrightarrow> enemies s' = enemies s \<Longrightarrow> estore s' = estore s \<Longrightarrow> nextRef s' = nextRef s
   \<Longrightarrow> boss s' = boss s \<Longrightarrow> bstore s' = bstore s \<Longrightarrow> particles s' = particles s
   \<Longrightarrow> currentLevel s' = currentLevel s \<Longrightarrow> bossBullets s' = bossBullets s
   \<Longrightarrow> playerOk (player s') \<Longrightarrow> wellFormed s'"
  by (simp add: wellFormed_def enemiesOk_def bossOk_def hazardsOk_def levelOk_def)

lemma updateReload_wf: "wellFormed s \<Longrightarrow> wellFormed (updateReload fr s)"
proof -
  assume wf: "wellFormed s"
  have "playerOk (player (updateReload fr s))"
    using wf_playerOk[OF wf]
    by (simp add: updateReload_def Let_def proj_if playerOk_def emit_def
         if_distrib[where f=player]
          split del: if_split cong del: if_weak_cong)
  then show ?thesis
    by (intro wf_player_only[OF wf])
       (simp_all add: updateReload_def Let_def emit_def
          if_distrib[where f=enemies] if_distrib[where f=estore] if_distrib[where f=nextRef]
          if_distrib[where f=boss] if_distrib[where f=bstore] if_distrib[where f=particles]
          if_distrib[where f=currentLevel] if_distrib[where f=bossBullets]
          split del: if_split cong del: if_weak_cong)
qed

lemma updateMovement_wf: "wellFormed s \<Longrightarrow> wellFormed (updateMovement fr s)"
proof -
  assume wf: "wellFormed s"
  have "playerOk (player (updateMovement fr s))"
    apply (rule playerOk_cong[OF wf_playerOk[OF wf]])
    by (simp_all add: updateMovement_def Let_def proj_if PLAYER_STAMINA_def
          split del: if_split cong del: if_weak_cong)
  then show ?thesis
    by (intro wf_player_only[OF wf]) (simp_all add: updateMovement_def Let_def)
qed

lemma playerShoot_wf: "wellFormed s \<Longrightarrow> wellFormed (playerShoot fr l s)"
  by (simp add: playerShoot_def Let_def randFloat_def random_def case_prod_beta wellFormed_def ok_defs)

lemma updateFire_wf: "wellFormed s \<Longrightarrow> wellFormed (updateFire fr s)"
  by (simp add: updateFire_def Let_def playerShoot_wf)

lemma playerMeleeAttack_wf: "wellFormed s \<Longrightarrow> wellFormed (playerMeleeAttack fr s)"
  by (simp add: playerMeleeAttack_def Let_def wellFormed_def ok_defs emit_def)

lemma useSkillQ_wf: "wellFormed s \<Longrightarrow> wellFormed (useSkillQ s)"
  by (simp add: useSkillQ_def wellFormed_def ok_defs SKILL_Q_HEAL_def)

lemma useSkillZ_wf: "wellFormed s \<Longrightarrow> wellFormed (useSkillZ s)"
  by (simp add: useSkillZ_def wellFormed_def ok_defs emit_def)

lemma useSkillG_wf: "wellFormed s \<Longrightarrow> wellFormed (useSkillG s)"
  by (simp add: useSkillG_def wellFormed_def ok_defs emit_def)

lemma updateActionKeys_wf: "wellFormed s \<Longrightarrow> wellFormed (updateActionKeys fr s)"
  by (simp add: updateActionKeys_def Let_def playerMeleeAttack_wf useSkillQ_wf useSkillZ_wf useSkillG_wf)

lemma updatePlayer_wf: "wellFormed s \<Longrightarrow> wellFormed (updatePlayer fr s)"
  by (simp add: updatePlayer_def updateActionKeys_wf updateFire_wf updateMovement_wf updateReload_wf)

lemma updateSkills_wf: "wellFormed s \<Longrightarrow> wellFormed (updateSkills dt s)"
proof -
  assume wf: "wellFormed s"
  have "playerOk (player (updateSkills dt s))"
    using wf_playerOk[OF wf]
    by (simp add: updateSkills_def Let_def proj_if playerOk_def
          split del: if_split cong del: if_weak_cong)
  then show ?thesis
    by (intro wf_player_only[OF wf]) (simp_all add: updateSkills_def Let_def)
qed

lemma updateMelee_wf: "wellFormed s \<Longrightarrow> wellFormed (updateMelee dt s)"
  by (simp add: updateMelee_def Let_def wellFormed_def ok_defs)

lemma moveFold_hp:
  "e_hp (fold (\<lambda>r st. st(r := moveEnemy t dt (st r))) rs st0 q) = e_hp (st0 q)
   \<and> e_damage (fold (\<lambda>r st. st(r := moveEnemy t dt (st r))) rs st0 q) = e_damage (st0 q)"
  by (induction rs arbitrary: st0) (simp_all add: moveEnemy_def Let_def)

lemma updateEnemies_wf: "wellFormed s \<Longrightarrow> wellFormed (updateEnemies dt s)"
  by (simp add: updateEnemies_def wellFormed_def ok_defs moveFold_hp)

lemma updateBullets_wf: "wellFormed s \<Longrightarrow> wellFormed (updateBullets dt s)"
  by (simp add: updateBullets_def wellFormed_def ok_defs)

lemma findDroneTarget_wf: "wellFormed s \<Longrightarrow> wellFormed (findDroneTarget d s)"
  by (simp add: findDroneTarget_def Let_def case_prod_beta wellFormed_def ok_defs)

lemma droneShoot_wf: "wellFormed s \<Longrightarrow> wellFormed (droneShoot d s)"
  by (simp add: droneShoot_def Let_def split: option.splits)

lemma wf_drone_upd [simp]:
  "wellFormed (s\<lparr>dronePos := x\<rparr>) = wellFormed s"
  "wellFormed (s\<lparr>lastDroneShotTime := y\<rparr>) = wellFormed s"
  "wellFormed (s\<lparr>droneTarget := z\<rparr>) = wellFormed s"
  by (simp_all add: wellFormed_def ok_defs)

lemma updateDrone_wf: "wellFormed s \<Longrightarrow> wellFormed (updateDrone fr s)"
  by (simp add: updateDrone_def Let_def findDroneTarget_wf droneShoot_wf split: option.splits)


lemma lvl_factor_real: "0 \<le> (x::real) \<Longrightarrow> 0 < 1 + (x - 1) * 0.1"
  by (simp add: field_simps)

lemma lvl_factor: "0 \<le> (l::int) \<Longrightarrow> 0 < 1 + (real_of_int l - 1) * 0.1"
  using lvl_factor_real[of "real_of_int l"] by simp

lemma makeEnemy_ok:
  assumes "0 \<le> l"
  shows "0 < e_hp (makeEnemy ngp l ty pos) \<and> 0 \<le> e_damage (makeEnemy ngp l ty pos)"
proof -
  have f: "0 < 1 + (real_of_int l - 1) * 0.1" using assms by (rule lvl_factor)
  have "0 < E_HP (ENEMY ty) * (if ngp then 1.2 else 1)" by (cases ty) simp_all
  from this f have h: "0 < E_HP (ENEMY ty) * (if ngp then 1.2 else 1) * (1 + (real_of_int l - 1) * 0.1)"
    by (rule mult_pos_pos)
  have "0 < E_DAMAGE (ENEMY ty) * (if ngp then 1.2 else 1)" by (cases ty) simp_all
  from this f have d: "0 < E_DAMAGE (ENEMY ty) * (if ngp then 1.2 else 1) * (1 + (real_of_int l - 1) * 0.1)"
    by (rule mult_pos_pos)
  from h d show ?thesis by (simp add: makeEnemy_def Let_def del: ENEMY.simps)
qed

lemma wf_add_enemy:
  assumes "wellFormed s" "0 < e_hp e \<and> 0 \<le> e_damage e"
  shows "wellFormed (s\<lparr>estore := (estore s)(nextRef s := e),
           enemies := enemies s @ [nextRef s], nextRef := Suc (nextRef s)\<rparr>)"
  using assms by (auto simp add: wellFormed_def ok_defs)

lemma wf_rndIdx_upd2: "wellFormed s \<Longrightarrow> wellFormed (s\<lparr>rndIdx := n\<rparr>)"
  by simp

lemma spawnEnemy_wf: assumes wf: "wellFormed s" shows "wellFormed (spawnEnemy s)"
proof -
  have l: "0 \<le> currentLevel s" using wf by (simp add: wellFormed_def levelOk_def)
  define ty where "ty = chooseEnemyType (currentLevel s) (rnd s (rndIdx s))"
  show ?thesis
  proof (cases "ty = drone \<or> ty = scout \<or> ty = kamikaze")
    case True
    then show ?thesis
      unfolding spawnEnemy_def random_def Let_def case_prod_beta fst_conv snd_conv
      using wf_add_enemy[OF wf_rndIdx_upd2[OF wf], OF makeEnemy_ok[OF l]]
      by (simp add: ty_def)
  next
    case False
    then show ?thesis
      unfolding spawnEnemy_def random_def Let_def case_prod_beta fst_conv snd_conv
      using wf_add_enemy[OF wf_rndIdx_upd2[OF wf], OF makeEnemy_ok[OF l]]
      by (simp add: ty_def)
  qed
qed

lemma wf_wave_upd [simp]: "wellFormed (s\<lparr>wave := x\<rparr>) = wellFormed s"
  by (simp add: wellFormed_def ok_defs)

lemma bossShootSimple_wf:
  "wellFormed s \<Longrightarrow> wellFormed (bossShootSimple d l s)"
  by (auto simp add: bossShootSimple_def Let_def wellFormed_def ok_defs split: option.splits)

lemma bossShootSimple_boss [simp]: "boss (bossShootSimple d l s) = boss s"
  "currentLevel (bossShootSimple d l s) = currentLevel s"
  by (simp_all add: bossShootSimple_def Let_def split: option.splits)

lemma fold_wf: "(\<And>i s. wellFormed s \<Longrightarrow> wellFormed (f i s)) \<Longrightarrow> wellFormed s \<Longrightarrow> wellFormed (fold f xs s)"
  by (induction xs arbitrary: s) simp_all

lemma wf_particles_add:
  "wellFormed s \<Longrightarrow> 0 \<le> p_damage p \<Longrightarrow> wellFormed (s\<lparr>particles := particles s @ [p]\<rparr>)"
  by (simp add: wellFormed_def ok_defs)

lemma hazard_damage [simp]: "p_damage (hazard k p l d r q) = d"
  by (simp add: hazard_def)

lemma updateWaveSpawning_wf: "wellFormed s \<Longrightarrow> wellFormed (updateWaveSpawning dt s)"
  by (simp add: updateWaveSpawning_def Let_def spawnEnemy_wf)

lemma fold_rule: "(\<And>i x. R x \<Longrightarrow> R (g i x)) \<Longrightarrow> R s \<Longrightarrow> R (fold g xs s)"
  by (induction xs arbitrary: s) simp_all

lemma executeBossAttack_rule:
  assumes none: "boss s = None \<Longrightarrow> R s"
    and base: "\<And>b. boss s = Some b \<Longrightarrow>
       R (s\<lparr>bstore := (bstore s)(b := (bstore s b)\<lparr>b_attackTimer := B_ATTACK_COOLDOWN (bossConfig (currentLevel s))\<rparr>)\<rparr>)"
    and shoot: "\<And>x d l. R x \<Longrightarrow> R (bossShootSimple d l x)"
    and part: "\<And>x k p l r q. R x \<Longrightarrow>
       R (x\<lparr>particles := particles x @ [hazard k p l (B_BULLET_DAMAGE (bossConfig (currentLevel s))) r q]\<rparr>)"
    and rand: "\<And>x. R x \<Longrightarrow> R (snd (random x))"
    and em: "\<And>x e. R x \<Longrightarrow> R (emit e x)"
  shows "R (executeBossAttack s)"
proof (cases "boss s")
  case None
  then show ?thesis using none by (simp add: executeBossAttack_def)
next
  case (Some b)
  define s1 where "s1 = s\<lparr>bstore := (bstore s)(b := (bstore s b)\<lparr>b_attackTimer := B_ATTACK_COOLDOWN (bossConfig (currentLevel s))\<rparr>)\<rparr>"
  have r1: "R s1" unfolding s1_def using Some by (rule base)
  have l1: "currentLevel s1 = currentLevel s" by (simp add: s1_def)
  have eq: "executeBossAttack s =
     (let cfg = bossConfig (currentLevel s);
          bossPos = b_pos (bstore s1 b);
          dirToPlayer = normalize (subVectors (playerPos s1) bossPos);
          l = currentLevel s1
      in if l = 1 then bossShootSimple dirToPlayer False s1
           else if l = 2
           then fold (\<lambda>i. bossShootSimple (rotateY dirToPlayer (of_int i * pi / 16)) False)
                  [- 2, - 1, 0, 1, 2 :: int] s1
           else if l = 3
           then (let s2 = bossShootSimple dirToPlayer False s1
                 in s2\<lparr>particles := particles s2 @
                         [hazard Shockwave (vx bossPos, 0.1, vz bossPos) 3 (B_BULLET_DAMAGE cfg) 0 0]\<rparr>)
           else if l = 4
           then (let s2 = bossShootSimple dirToPlayer True s1
                 in s2\<lparr>particles := particles s2 @
                         [hazard ShockwaveRing (vx bossPos, 0.2, vz bossPos) 4 (B_BULLET_DAMAGE cfg) 25 0]\<rparr>)
           else if l = 5
           then (let x = fst (random s1); s2 = snd (random s1);
                     attackType = \<lfloor>x * 2\<rfloor>
                 in if attackType = 0
                    then fold (\<lambda>i. emit (EvTimeout (TRingShot i) (i * 50))) [0 ..< 20] s2
                    else s2\<lparr>particles := particles s2 @
                              [hazard SweepingLaser (vx bossPos, 1.6, vz bossPos) 5
                                 (B_BULLET_DAMAGE cfg) 0 0.5]\<rparr>)
           else s1)"
    using Some unfolding executeBossAttack_def s1_def by (simp add: Let_def case_prod_beta)
  have sh: "\<And>d l. R (bossShootSimple d l s1)" using r1 by (rule shoot)
  note fs = shoot[OF shoot[OF shoot[OF shoot[OF shoot[OF r1]]]]]
  have r2: "R (snd (random s1))" using r1 by (rule rand)
  have fe: "R (fold (\<lambda>i. emit (EvTimeout (TRingShot i) (i * 50))) [0 ..< 20] (snd (random s1)))"
    by (rule fold_rule[where R=R], rule em, assumption, rule r2)
  show ?thesis unfolding eq Let_def
    using r1 sh fs fe part[OF sh] part[OF r2]
    by (simp del: fold_simps upt_conv_Cons upt.simps)
qed

lemma executeBossAttack_wf:
  assumes wf: "wellFormed s" shows "wellFormed (executeBossAttack s)"
proof (cases "boss s")
  case None
  with wf show ?thesis by (simp add: executeBossAttack_def)
next
  case (Some b)
  with wf have l: "1 \<le> currentLevel s" "currentLevel s \<le> 5"
    by (simp_all add: wellFormed_def levelOk_def)
  then have dmg: "0 \<le> B_BULLET_DAMAGE (bossConfig (currentLevel s))" by (rule bossConfig_damage)
  show ?thesis
  proof (rule executeBossAttack_rule)
    show "wellFormed s" by (rule wf)
  next
    fix b assume "boss s = Some b"
    then show "wellFormed (s\<lparr>bstore := (bstore s)(b := (bstore s b)\<lparr>b_attackTimer := B_ATTACK_COOLDOWN (bossConfig (currentLevel s))\<rparr>)\<rparr>)"
      using wf by (simp add: wellFormed_def ok_defs)
  next
    fix x d l assume "wellFormed x" then show "wellFormed (bossShootSimple d l x)" by (rule bossShootSimple_wf)
  next
    fix x k p l r q assume "wellFormed x"
    then show "wellFormed (x\<lparr>particles := particles x @ [hazard k p l (B_BULLET_DAMAGE (bossConfig (currentLevel s))) r q]\<rparr>)"
      using dmg by (intro wf_particles_add) simp_all
  next
    fix x assume "wellFormed x" then show "wellFormed (snd (random x))" by (simp add: random_def)
  next
    fix x e assume "wellFormed x" then show "wellFormed (emit e x)" by simp
  qed
qed

lemma executeBossAttack_boss [simp]: "boss (executeBossAttack s) = boss s"
proof -
  have f1: "\<And>xs g s. (\<And>i s. boss (g i s) = boss s) \<Longrightarrow> boss (fold g xs s) = boss s"
    subgoal for xs g s by (induction xs arbitrary: s) simp_all
    done
  show ?thesis
    by (simp add: executeBossAttack_def Let_def case_prod_beta random_def f1 emit_def
        split: option.splits)
qed

lemma bossShootSimple_bstore [simp]: "bstore (bossShootSimple d l s) = bstore s"
  by (simp add: bossShootSimple_def Let_def split: option.splits)

lemma fold_bstore:
  "(\<And>i s. bstore (g i s) = bstore s) \<Longrightarrow> bstore (fold g xs s) = bstore s"
  by (induction xs arbitrary: s) simp_all

lemma executeBossAttack_bstore:
  "boss s = Some b \<Longrightarrow> bstore (executeBossAttack s) =
     (bstore s)(b := (bstore s b)\<lparr>b_attackTimer := B_ATTACK_COOLDOWN (bossConfig (currentLevel s))\<rparr>)"
  by (simp add: executeBossAttack_def Let_def case_prod_beta random_def fold_bstore emit_def)

lemma executeBossAttack_level [simp]: "currentLevel (executeBossAttack s) = currentLevel s"
proof -
  have f1: "\<And>xs g s. (\<And>i s. currentLevel (g i s) = currentLevel s) \<Longrightarrow> currentLevel (fold g xs s) = currentLevel s"
    subgoal for xs g s by (induction xs arbitrary: s) simp_all
    done
  show ?thesis
    by (simp add: executeBossAttack_def Let_def case_prod_beta random_def f1 emit_def
        split: option.splits)
qed

lemma updateBoss_wf: assumes wf: "wellFormed s" shows "wellFormed (updateBoss fr s)"
proof (cases "boss s")
  case None
  with wf show ?thesis by (simp add: updateBoss_def)
next
  case (Some b)
  define bo2 where "bo2 = (let bo = bstore s b;
            d = subVectors (playerPos s) (b_pos bo);
            dir = normalize (vx d, 0, vz d);
            bo1 = (if currentLevel s < 5
                   then bo\<lparr>b_pos := vadd (b_pos bo) (multiplyScalar dir (b_speed bo * deltaTime fr))\<rparr>
                   else bo)
     in bo1\<lparr>b_attackTimer := b_attackTimer bo1 - deltaTime fr\<rparr>)"
  define s1 where "s1 = s\<lparr>bstore := (bstore s)(b := bo2)\<rparr>"
  define s2 where "s2 = (if b_attackTimer bo2 \<le> 0 then executeBossAttack s1 else s1)"
  have bo2: "b_hp bo2 = b_hp (bstore s b) \<and> b_damage bo2 = b_damage (bstore s b)"
    by (simp add: bo2_def Let_def)
  have wf1: "wellFormed s1" using wf Some bo2 by (simp add: s1_def wellFormed_def ok_defs)
  have b1: "boss s1 = Some b" using Some by (simp add: s1_def)
  have wf2: "wellFormed s2" using wf1 by (simp add: s2_def executeBossAttack_wf)
  have b2: "boss s2 = Some b" using b1 by (simp add: s2_def)
  have eq: "updateBoss fr s =
     (let bo3 = bstore s2 b
      in if b_isFinalBoss bo3
           then (let pr = mod1 (b_weakPointProgress bo3 + deltaTime fr * 0.1)
                 in s2\<lparr>bstore := (bstore s2)
                          (b := bo3\<lparr>b_weakPointProgress := pr,
                                     b_weakPointPos := weakPointPath fr pr\<rparr>)\<rparr>)
           else s2)"
    using Some unfolding updateBoss_def s2_def s1_def bo2_def Let_def by simp
  show ?thesis unfolding eq Let_def using wf2 b2
    by (simp add: wellFormed_def ok_defs)
qed

lemma updateBossBulletLoop_frame:
  "player (snd (updateBossBulletLoop fr bs s)) = player s
   \<and> enemies (snd (updateBossBulletLoop fr bs s)) = enemies s
   \<and> estore (snd (updateBossBulletLoop fr bs s)) = estore s
   \<and> nextRef (snd (updateBossBulletLoop fr bs s)) = nextRef s
   \<and> boss (snd (updateBossBulletLoop fr bs s)) = boss s
   \<and> bstore (snd (updateBossBulletLoop fr bs s)) = bstore s
   \<and> particles (snd (updateBossBulletLoop fr bs s)) = particles s
   \<and> currentLevel (snd (updateBossBulletLoop fr bs s)) = currentLevel s
   \<and> bossBullets (snd (updateBossBulletLoop fr bs s)) = bossBullets s"
  by (induction bs) (simp_all add: Let_def case_prod_beta createExplosion_def emit_def)

lemma wf_frame:
  "wellFormed s \<Longrightarrow> player s' = player s
   \<and> enemies s' = enemies s \<and> estore s' = estore s \<and> nextRef s' = nextRef s
   \<and> boss s' = boss s \<and> bstore s' = bstore s \<and> particles s' = particles s
   \<and> currentLevel s' = currentLevel s \<and> bossBullets s' = bossBullets s
   \<Longrightarrow> wellFormed s'"
  by (simp add: wellFormed_def enemiesOk_def bossOk_def hazardsOk_def levelOk_def)

lemma updateBossBulletLoop_kept: "fst (updateBossBulletLoop fr bs s) \<noteq> [] \<Longrightarrow> bs \<noteq> []"
  by (cases bs) simp_all

lemma updateBossBullets_wf: assumes wf: "wellFormed s" shows "wellFormed (updateBossBullets fr s)"
proof -
  have w: "wellFormed (snd (updateBossBulletLoop fr (bossBullets s) s))"
    using wf updateBossBulletLoop_frame by (rule wf_frame)
  have "bossBullets (snd (updateBossBulletLoop fr (bossBullets s) s)) = bossBullets s"
    using updateBossBulletLoop_frame by blast
  then show ?thesis
    using updateBossBulletLoop_kept[of fr "bossBullets s" s]
    by (auto simp add: updateBossBullets_def case_prod_beta intro!: wf_bossBullets_upd w)
qed

lemma particleStep_wf:
  "wellFormed s \<Longrightarrow> 0 \<le> deltaTime fr \<Longrightarrow> 0 \<le> p_damage p \<Longrightarrow>
   wellFormed (snd (particleStep fr p s)) \<and> p_damage (fst (particleStep fr p s)) = p_damage p"
  by (simp add: particleStep_def Let_def playerTakeDamage_wf)

lemma particleStep_particles [simp]: "particles (snd (particleStep fr p s)) = particles s"
  by (simp add: particleStep_def Let_def playerTakeDamage_def fx_defs)

lemma particleLoop_wf:
  "wellFormed s \<Longrightarrow> 0 \<le> deltaTime fr \<Longrightarrow> \<forall>p \<in> set ps. 0 \<le> p_damage p \<Longrightarrow>
   wellFormed (snd (particleLoop fr ps s)) \<and> (\<forall>p \<in> set (fst (particleLoop fr ps s)). 0 \<le> p_damage p)"
  by (induction ps) (simp_all add: Let_def case_prod_beta particleStep_wf)

lemma wf_particles_upd:
  "wellFormed s \<Longrightarrow> \<forall>p \<in> set ps. 0 \<le> p_damage p \<Longrightarrow> wellFormed (s\<lparr>particles := ps\<rparr>)"
  by (simp add: wellFormed_def ok_defs)

lemma updateParticles_wf:
  assumes "wellFormed s" "0 \<le> deltaTime fr" shows "wellFormed (updateParticles fr s)"
proof -
  have "\<forall>p \<in> set (particles s). 0 \<le> p_damage p" using assms(1) by (simp add: wellFormed_def hazardsOk_def)
  from particleLoop_wf[OF assms this] show ?thesis
    by (simp add: updateParticles_def case_prod_beta wf_particles_upd)
qed

lemma animate_wf:
  assumes wf: "wellFormed s" and dt: "0 \<le> deltaTime fr"
  shows "wellFormed (animate fr s)"
proof -
  have a: "wellFormed (updateMelee (deltaTime fr) (updateSkills (deltaTime fr) (checkCollisions fr
     (let c = updateBullets (deltaTime fr) (updateEnemies (deltaTime fr) (updatePlayer fr s))
      in if drone_unlocked (player c) then updateDrone fr c else c))))"
    using wf
    by (simp add: Let_def updateMelee_wf updateSkills_wf checkCollisions_wf updateDrone_wf
          updateBullets_wf updateEnemies_wf updatePlayer_wf)
  define s1 where "s1 = (if gameState s = playing \<or> gameState s = boss_fight
                 then (let a = updatePlayer fr s;
                           b = updateEnemies (deltaTime fr) a;
                           c = updateBullets (deltaTime fr) b;
                           d = (if drone_unlocked (player c) then updateDrone fr c else c);
                           e = checkCollisions fr d;
                           f = updateSkills (deltaTime fr) e;
                           g = updateMelee (deltaTime fr) f
                       in emit EvStats g)
                 else s)"
  have wf1: "wellFormed s1" using a wf by (simp add: s1_def Let_def)
  define s2 where "s2 = (if gameState s1 = playing then updateWaveSpawning (deltaTime fr) s1 else s1)"
  have wf2: "wellFormed s2" using wf1 by (simp add: s2_def updateWaveSpawning_wf)
  define s3 where "s3 = (if gameState s2 = boss_fight \<and> boss s2 \<noteq> None
                 then (let a = updateBossBullets fr (updateBoss fr s2)
                       in case boss a of
                            None \<Rightarrow> a
                          | Some r \<Rightarrow>
                             emit (EvBossUpdate (b_hp (bstore a r)) (b_maxHp (bstore a r))
                                     (b_weakPointHp (bstore a r))) a)
                 else s2)"
  have wf3: "wellFormed s3" using wf2
    by (simp add: s3_def Let_def updateBossBullets_wf updateBoss_wf split: option.splits)
  have "animate fr s = (if gameState s = paused then s else updateParticles fr s3)"
    unfolding animate_def s3_def s2_def s1_def Let_def by simp
  then show ?thesis using wf wf3 dt by (simp add: updateParticles_wf)
qed

section \<open>Fields that the damage model leaves alone\<close>

lemma untouched_refl [simp]: "untouched s s" by (simp add: untouched_def)

lemma untouched_trans: "untouched a b \<Longrightarrow> untouched b c \<Longrightarrow> untouched a c"
  by (simp add: untouched_def)

lemma untouched_onEnemyDefeated: "untouched s (onEnemyDefeated r i s)"
  by (simp add: onEnemyDefeated_form Let_def untouched_def del: ENEMY.simps)

lemma untouched_onBossDefeated: "untouched s (onBossDefeated s)"
  by (simp add: onBossDefeated_form untouched_def split: option.splits)

lemma untouched_bossHpSub: "untouched s (bossHpSub d s)"
proof (cases "boss s")
  case None then show ?thesis by (simp add: bossHpSub_def)
next
  case (Some b)
  let ?s1 = "s\<lparr>bstore := (bstore s)(b := (bstore s b)\<lparr>b_hp := b_hp (bstore s b) - d\<rparr>)\<rparr>"
  have 1: "untouched s ?s1" by (simp add: untouched_def)
  have 2: "untouched ?s1 (onBossDefeated ?s1)" by (rule untouched_onBossDefeated)
  have "bossHpSub d s = (if b_hp (bstore ?s1 b) \<le> 0 then onBossDefeated ?s1 else ?s1)"
    using Some by (simp add: bossHpSub_def Let_def)
  then show ?thesis using 1 untouched_trans[OF 1 2] by simp
qed

lemma untouched_dealDamageWith:
  assumes ex: "\<And>p r d' s'. untouched s' (ex p r d' s')"
  shows "untouched s (dealDamageWith ex t d f s)"
proof (cases t)
  case (TEnemy r)
  define s1 where "s1 =
       (if e_type (estore s r) = kamikaze \<and> \<not> f
        then (let s' = ex (e_pos (estore s r)) (e_size (estore s r) * 5) (e_damage (estore s r)) s
              in s'\<lparr>estore := (estore s')(r := (estore s' r)\<lparr>e_hp := 0\<rparr>)\<rparr>)
        else s\<lparr>estore := (estore s)(r := (estore s r)\<lparr>e_hp := e_hp (estore s r) - d\<rparr>)\<rparr>)"
  have 1: "untouched s s1"
    using ex[of s "e_pos (estore s r)" "e_size (estore s r) * 5" "e_damage (estore s r)"]
    by (simp add: s1_def Let_def untouched_def)
  have 2: "untouched s1 (onEnemyDefeated r (indexOf r (enemies s1)) s1)"
    by (rule untouched_onEnemyDefeated)
  have "dealDamageWith ex t d f s =
        (if e_hp (estore s r) \<le> 0 then s else
         if e_hp (estore s1 r) \<le> 0
         then (if r \<in> set (enemies s1) then onEnemyDefeated r (indexOf r (enemies s1)) s1 else s1)
         else s1)"
    using TEnemy unfolding dealDamageWith_def s1_def Let_def by simp
  then show ?thesis using 1 untouched_trans[OF 1 2] by simp
next
  case (TBoss b)
  define s1 where "s1 = (if b_isFinalBoss (bstore s b) then s
              else s\<lparr>bstore := (bstore s)(b := (bstore s b)\<lparr>b_hp := b_hp (bstore s b) - d\<rparr>)\<rparr>)"
  have 1: "untouched s s1" by (simp add: s1_def untouched_def)
  have 2: "untouched s1 (onBossDefeated s1)" by (rule untouched_onBossDefeated)
  have "dealDamageWith ex t d f s =
     (if b_hp (bstore s b) \<le> 0 then s
      else if b_hp (bstore s1 b) \<le> 0
              then (if boss s1 = Some b then onBossDefeated s1 else s1)
              else s1)"
    using TBoss unfolding dealDamageWith_def s1_def Let_def by simp
  then show ?thesis using 1 untouched_trans[OF 1 2] by simp
qed

lemma untouched_explosionLoop: "untouched s (explosionLoop i p r d s)"
proof (induction i arbitrary: s)
  case 0 show ?case by simp
next
  case (Suc i)
  define s1 where "s1 = (if i < length (enemies s)
           \<and> distanceTo (e_pos (estore s (enemies s ! i))) p < r
        then dealDamageWith (\<lambda>_ _ _ s'. s') (TEnemy (enemies s ! i)) d True s
        else s)"
  have 1: "untouched s s1"
    by (simp add: s1_def untouched_dealDamageWith)
  have 2: "untouched s1 (explosionLoop i p r d s1)" by (rule Suc)
  have "explosionLoop (Suc i) p r d s = explosionLoop i p r d s1"
    by (simp add: s1_def)
  then show ?case using untouched_trans[OF 1 2] by simp
qed

lemma untouched_triggerExplosion: "untouched s (triggerExplosion p r d s)"
proof -
  define s1 where "s1 = triggerScreenShake (createExplosion p 50 s)"
  define s2 where "s2 = explosionLoop (length (enemies s1)) p r d s1"
  have 1: "untouched s s1" by (simp add: s1_def untouched_def fx_defs)
  have 2: "untouched s s2" unfolding s2_def using untouched_trans[OF 1 untouched_explosionLoop] .
  have 3: "untouched s (bossHpSub d s2)" using untouched_trans[OF 2 untouched_bossHpSub] .
  have 4: "\<And>b. untouched s (dealDamageWith (\<lambda>_ _ _ s'. s') (TBoss b) d True s2)"
    using untouched_trans[OF 2 untouched_dealDamageWith] by simp
  have "triggerExplosion p r d s =
     (case boss s2 of
          None \<Rightarrow> s2
        | Some b \<Rightarrow>
           let bo = bstore s2 b in
           if distanceTo (b_pos bo) p < r + b_size bo / 2
           then (if b_isFinalBoss bo
                 then (if distanceTo (b_weakPointPos bo) p < r
                       then bossHpSub d s2 else s2)
                 else dealDamageWith (\<lambda>_ _ _ s'. s') (TBoss b) d True s2)
           else s2)"
    unfolding triggerExplosion_def s2_def s1_def Let_def by simp
  then show ?thesis using 2 3 4 by (simp add: Let_def split: option.splits)
qed

lemma untouched_dealDamageTo: "untouched s (dealDamageTo t d f s)"
  unfolding dealDamageTo_def by (rule untouched_dealDamageWith) (rule untouched_triggerExplosion)

section \<open>The heal skill\<close>

lemmas game_if =
  if_distrib[where f=player] if_distrib[where f=keys] if_distrib[where f=bullets]

lemmas cd_if = if_distrib[where f=q_cooldown] if_distrib[where f=hp] if_distrib[where f=maxHp]

lemma playerMeleeAttack_q [simp]:
  "q_cooldown (player (playerMeleeAttack fr s)) = q_cooldown (player s)"
  "hp (player (playerMeleeAttack fr s)) = hp (player s)"
  "maxHp (player (playerMeleeAttack fr s)) = maxHp (player s)"
  "q_unlocked (player (playerMeleeAttack fr s)) = q_unlocked (player s)"
  "keys (playerMeleeAttack fr s) = keys s"
  by (simp_all add: playerMeleeAttack_def Let_def emit_def)

lemma updateActionKeys_heal:
  assumes "keys s KeyQ" "q_unlocked (player s)" "q_cooldown (player s) \<le> 0"
  shows "hp (player (updateActionKeys fr s)) = min (maxHp (player s)) (hp (player s) + SKILL_Q_HEAL)
       \<and> q_cooldown (player (updateActionKeys fr s)) = SKILL_Q_COOLDOWN"
  using assms
  by (simp add: updateActionKeys_def Let_def useSkillQ_def useSkillZ_def useSkillG_def emit_def)

lemma updateSkills_q:
  "q_cooldown (player (updateSkills dt s)) =
     (if q_cooldown (player s) > 0 then q_cooldown (player s) - dt else q_cooldown (player s))"
  by (simp add: updateSkills_def Let_def cd_if split del: if_split cong del: if_weak_cong)


lemma qSame_refl [simp]: "qSame s s" by (simp add: qSame_def)

lemma qSame_trans: "qSame a b \<Longrightarrow> qSame b c \<Longrightarrow> qSame a c" by (simp add: qSame_def)

lemma qSame_player: "player s' = player s \<Longrightarrow> keys s' = keys s \<Longrightarrow> qSame s s'"
  by (simp add: qSame_def)

lemma qSame_updateReload: "qSame s (updateReload fr s)"
  by (simp add: qSame_def updateReload_def Let_def emit_def)

lemma qSame_updateMovement: "qSame s (updateMovement fr s)"
  by (simp add: qSame_def updateMovement_def Let_def cd_if split del: if_split cong del: if_weak_cong)

lemma playerShoot_form:
  "playerShoot fr isLaser s =
     s\<lparr>player := (player s)\<lparr>ammoInMagazine := (if isLaser then ammoInMagazine (player s)
                                                else ammoInMagazine (player s) - 1),
                              lastShotTime := elapsedTime fr\<rparr>,
       rndIdx := (if \<not> isAiming (player s) \<and> \<not> isLaser then Suc (Suc (Suc (rndIdx s))) else rndIdx s),
       bullets := bullets s @ [last (bullets (playerShoot fr isLaser s))]\<rparr>"
  by (simp add: playerShoot_def Let_def randFloat_def random_def case_prod_beta)

lemma qSame_playerShoot: "qSame s (playerShoot fr l s)"
  by (subst playerShoot_form) (simp add: qSame_def)

lemma qSame_updateFire: "qSame s (updateFire fr s)"
  using qSame_playerShoot[of s fr]
  by (simp add: qSame_def updateFire_def Let_def)

lemma qSame_updateActionKeys: "\<not> keys s KeyQ \<Longrightarrow> qSame s (updateActionKeys fr s)"
  by (simp add: qSame_def updateActionKeys_def Let_def useSkillZ_def useSkillG_def emit_def)

lemma qSame_updatePlayer: "\<not> keys s KeyQ \<Longrightarrow> qSame s (updatePlayer fr s)"
proof -
  assume k: "\<not> keys s KeyQ"
  have 1: "qSame s (updateFire fr (updateMovement fr (updateReload fr s)))"
    by (meson qSame_trans qSame_updateReload qSame_updateMovement qSame_updateFire)
  then have "\<not> keys (updateFire fr (updateMovement fr (updateReload fr s))) KeyQ"
    using k by (simp add: qSame_def)
  then have "qSame (updateFire fr (updateMovement fr (updateReload fr s))) (updatePlayer fr s)"
    unfolding updatePlayer_def by (rule qSame_updateActionKeys)
  with 1 show ?thesis by (rule qSame_trans)
qed


lemma qSame_untouched: "untouched s s' \<Longrightarrow> qSame s s'"
  by (simp add: untouched_def qSame_def)

lemma qSame_upd [simp]:
  "qSame s (s'\<lparr>bullets := x\<rparr>) = qSame s s'"
  "qSame s (s'\<lparr>droneBullets := y\<rparr>) = qSame s s'"
  "qSame s (s'\<lparr>bossBullets := z\<rparr>) = qSame s s'"
  "qSame s (s'\<lparr>pickups := w\<rparr>) = qSame s s'"
  "qSame s (s'\<lparr>particles := v\<rparr>) = qSame s s'"
  "qSame s (s'\<lparr>events := u\<rparr>) = qSame s s'"
  by (simp_all add: qSame_def)

lemma qSame_emit [simp]: "qSame s (emit e s') = qSame s s'"
  by (simp add: emit_def)

lemma qSame_createExplosion [simp]: "qSame s (createExplosion p n s') = qSame s s'"
  by (simp add: createExplosion_def)

lemma untouched_bulletAfterHit: "untouched s (snd (bulletAfterHit b p s))"
  using untouched_triggerExplosion[of s p SKILL_Z_AOE_RADIUS SKILL_Z_DAMAGE]
  by (simp add: bulletAfterHit_def Let_def createExplosion_def emit_def untouched_def)

lemma untouched_playerBulletStep: "untouched s (snd (playerBulletStep b s))"
proof -
  have a: "\<And>t d p. untouched s (snd (bulletAfterHit b p (dealDamageTo t d False s)))"
    using untouched_trans[OF untouched_dealDamageTo untouched_bulletAfterHit] .
  have c: "\<And>d p. untouched s (snd (bulletAfterHit b p (bossHpSub d s)))"
    using untouched_trans[OF untouched_bossHpSub untouched_bulletAfterHit] .
  show ?thesis
    by (simp add: playerBulletStep_def Let_def a c untouched_bulletAfterHit split: option.splits)
qed

lemma untouched_playerBulletLoop: "untouched s (snd (playerBulletLoop bs s))"
proof (induction bs)
  case Nil show ?case by simp
next
  case (Cons b bs)
  have "snd (playerBulletLoop (b # bs) s) = snd (playerBulletStep b (snd (playerBulletLoop bs s)))"
    by (simp add: Let_def case_prod_beta)
  then show ?case using untouched_trans[OF Cons untouched_playerBulletStep] by simp
qed

lemma untouched_droneBulletStep: "untouched s (snd (droneBulletStep b s))"
  by (simp add: droneBulletStep_def Let_def untouched_dealDamageTo untouched_bossHpSub
        split: option.splits)

lemma untouched_droneBulletLoop: "untouched s (snd (droneBulletLoop bs s))"
proof (induction bs)
  case Nil show ?case by simp
next
  case (Cons b bs)
  have "snd (droneBulletLoop (b # bs) s) = snd (droneBulletStep b (snd (droneBulletLoop bs s)))"
    by (simp add: Let_def case_prod_beta)
  then show ?case using untouched_trans[OF Cons untouched_droneBulletStep] by simp
qed

lemma untouched_upd [simp]:
  "untouched s (s'\<lparr>bullets := x\<rparr>) = untouched s s'"
  "untouched s (s'\<lparr>droneBullets := y\<rparr>) = untouched s s'"
  "untouched (s\<lparr>bullets := x\<rparr>) s' = untouched s s'"
  by (simp_all add: untouched_def)

lemma untouched_checkBulletCollisions: "untouched s (checkBulletCollisions s)"
proof -
  define s2 where "s2 = (snd (playerBulletLoop (bullets s) s))\<lparr>bullets := fst (playerBulletLoop (bullets s) s)\<rparr>"
  have 1: "untouched s s2" by (simp add: s2_def untouched_playerBulletLoop)
  have 2: "untouched s2 (snd (droneBulletLoop (droneBullets s2) s2))" by (rule untouched_droneBulletLoop)
  have "checkBulletCollisions s =
     (snd (droneBulletLoop (droneBullets s2) s2))\<lparr>droneBullets := fst (droneBulletLoop (droneBullets s2) s2)\<rparr>"
    by (simp add: checkBulletCollisions_def s2_def Let_def case_prod_beta)
  then show ?thesis using untouched_trans[OF 1 2] by simp
qed

lemma qSame_playerTakeDamage: "qSame s (playerTakeDamage a s)"
  by (simp add: playerTakeDamage_def Let_def fx_defs qSame_def)

lemma qSame_bossBulletLoop: "qSame s (snd (bossBulletLoop bs s))"
proof (induction bs)
  case Nil show ?case by simp
next
  case (Cons b bs)
  show ?case using Cons qSame_trans[OF Cons qSame_playerTakeDamage]
    by (simp add: Let_def case_prod_beta)
qed

lemma qSame_checkBossBulletCollisions: "qSame s (checkBossBulletCollisions s)"
  by (simp add: checkBossBulletCollisions_def case_prod_beta qSame_bossBulletLoop)

lemma qSame_setLastHitTime [simp]: "qSame s (setLastHitTime t s') = qSame s s'"
  by (simp add: setLastHitTime_def qSame_def)

lemma qSame_contactDamage: "qSame s (contactDamage now s)"
  by (simp add: contactDamage_def qSame_playerTakeDamage qSame_untouched[OF untouched_dealDamageTo]
        split: option.splits)

lemma qSame_collectPickup: "qSame s (collectPickup pk s)"
  by (simp add: collectPickup_def Let_def qSame_def)

lemma qSame_pickupLoop: "qSame s (snd (pickupLoop pks s))"
proof (induction pks)
  case Nil show ?case by simp
next
  case (Cons b bs)
  show ?case using Cons qSame_trans[OF Cons qSame_collectPickup]
    by (simp add: Let_def case_prod_beta)
qed

lemma qSame_checkCollisions: "qSame s (checkCollisions fr s)"
proof -
  have 1: "qSame s (checkBulletCollisions s)" by (rule qSame_untouched[OF untouched_checkBulletCollisions])
  have 2: "qSame s (checkBossBulletCollisions (checkBulletCollisions s))"
    using qSame_trans[OF 1 qSame_checkBossBulletCollisions] .
  have 3: "qSame s (contactDamage (elapsedTime fr) (checkBossBulletCollisions (checkBulletCollisions s)))"
    using qSame_trans[OF 2 qSame_contactDamage] .
  show ?thesis
    using qSame_trans[OF 3 qSame_pickupLoop]
    by (simp add: checkCollisions_def checkPlayerCollisions_def collectPickups_def case_prod_beta)
qed

lemma qSame_updateEnemies: "qSame s (updateEnemies dt s)"
  by (simp add: updateEnemies_def qSame_def)

lemma qSame_updateBullets: "qSame s (updateBullets dt s)"
  by (simp add: updateBullets_def qSame_def)

lemma qSame_updateDrone: "qSame s (updateDrone fr s)"
  by (simp add: updateDrone_def Let_def findDroneTarget_def droneShoot_def case_prod_beta qSame_def
        split: option.splits)

lemma qSame_updateMelee: "qSame s (updateMelee dt s)"
  by (simp add: updateMelee_def Let_def qSame_def cd_if split del: if_split cong del: if_weak_cong)

lemma qSame_spawnEnemy: "qSame s (spawnEnemy s)"
  by (simp add: spawnEnemy_def Let_def random_def case_prod_beta qSame_def game_if
        if_distrib[where f=snd] if_distrib[where f=fst]
        split del: if_split cong del: if_weak_cong)

lemma qSame_updateWaveSpawning: "qSame s (updateWaveSpawning dt s)"
proof -
  have "\<And>w. qSame s (spawnEnemy (s\<lparr>wave := w\<rparr>))"
    using qSame_spawnEnemy by (simp add: qSame_def)
  then show ?thesis by (simp add: updateWaveSpawning_def Let_def qSame_def)
qed

lemma qSame_bossShootSimple: "qSame s (bossShootSimple d l s)"
  by (simp add: bossShootSimple_def Let_def qSame_def split: option.splits)





lemma qSame_executeBossAttack: "qSame s (executeBossAttack s)"
  by (rule executeBossAttack_rule)
     (simp_all add: qSame_def bossShootSimple_def random_def emit_def Let_def split: option.splits)

lemma qSame_updateBoss: "qSame s (updateBoss fr s)"
proof (cases "boss s")
  case None then show ?thesis by (simp add: updateBoss_def)
next
  case (Some b)
  define bo2 where "bo2 = (let bo = bstore s b;
            d = subVectors (playerPos s) (b_pos bo);
            dir = normalize (vx d, 0, vz d);
            bo1 = (if currentLevel s < 5
                   then bo\<lparr>b_pos := vadd (b_pos bo) (multiplyScalar dir (b_speed bo * deltaTime fr))\<rparr>
                   else bo)
     in bo1\<lparr>b_attackTimer := b_attackTimer bo1 - deltaTime fr\<rparr>)"
  define s1 where "s1 = s\<lparr>bstore := (bstore s)(b := bo2)\<rparr>"
  define s2 where "s2 = (if b_attackTimer bo2 \<le> 0 then executeBossAttack s1 else s1)"
  have 1: "qSame s s1" by (simp add: s1_def qSame_def)
  have 2: "qSame s1 s2" by (simp add: s2_def qSame_executeBossAttack)
  have eq: "updateBoss fr s =
     (let bo3 = bstore s2 b
      in if b_isFinalBoss bo3
           then (let pr = mod1 (b_weakPointProgress bo3 + deltaTime fr * 0.1)
                 in s2\<lparr>bstore := (bstore s2)
                          (b := bo3\<lparr>b_weakPointProgress := pr,
                                     b_weakPointPos := weakPointPath fr pr\<rparr>)\<rparr>)
           else s2)"
    using Some unfolding updateBoss_def s2_def s1_def bo2_def Let_def by simp
  have "qSame s2 (updateBoss fr s)" unfolding eq Let_def by (simp add: qSame_def)
  with qSame_trans[OF 1 2] show ?thesis by (rule qSame_trans)
qed

lemma qSame_updateBossBulletLoop: "qSame s (snd (updateBossBulletLoop fr bs s))"
  by (induction bs) (simp_all add: Let_def case_prod_beta)

lemma qSame_updateBossBullets: "qSame s (updateBossBullets fr s)"
  by (simp add: updateBossBullets_def case_prod_beta qSame_updateBossBulletLoop)

lemma qSame_particleStep: "qSame s (snd (particleStep fr p s))"
  by (simp add: particleStep_def Let_def qSame_playerTakeDamage)

lemma qSame_particleLoop: "qSame s (snd (particleLoop fr ps s))"
proof (induction ps)
  case Nil show ?case by simp
next
  case (Cons p ps)
  have "snd (particleLoop fr (p # ps) s) = snd (particleStep fr p (snd (particleLoop fr ps s)))"
    by (simp add: Let_def case_prod_beta)
  then show ?case using qSame_trans[OF Cons qSame_particleStep] by simp
qed

lemma qSame_updateParticles: "qSame s (updateParticles fr s)"
  by (simp add: updateParticles_def case_prod_beta qSame_particleLoop)

lemma animate_q_cooldown:
  assumes k: "\<not> keys s KeyQ"
  shows "q_cooldown (player (animate fr s)) =
     (if (gameState s = playing \<or> gameState s = boss_fight) \<and> 0 < q_cooldown (player s)
      then q_cooldown (player s) - deltaTime fr else q_cooldown (player s))"
proof -
  define e where "e = checkCollisions fr
     (let c = updateBullets (deltaTime fr) (updateEnemies (deltaTime fr) (updatePlayer fr s))
      in if drone_unlocked (player c) then updateDrone fr c else c)"
  have qe: "qSame s e"
  proof -
    have 1: "qSame s (updatePlayer fr s)" using k by (rule qSame_updatePlayer)
    have 2: "qSame s (updateEnemies (deltaTime fr) (updatePlayer fr s))"
      using qSame_trans[OF 1 qSame_updateEnemies] .
    have 3: "qSame s (updateBullets (deltaTime fr) (updateEnemies (deltaTime fr) (updatePlayer fr s)))"
      using qSame_trans[OF 2 qSame_updateBullets] .
    have 4: "qSame s (let c = updateBullets (deltaTime fr) (updateEnemies (deltaTime fr) (updatePlayer fr s))
      in if drone_unlocked (player c) then updateDrone fr c else c)"
      using 3 qSame_trans[OF 3 qSame_updateDrone] by (simp add: Let_def)
    show ?thesis unfolding e_def using qSame_trans[OF 4 qSame_checkCollisions] .
  qed
  define s1 where "s1 = (if gameState s = playing \<or> gameState s = boss_fight
                 then emit EvStats (updateMelee (deltaTime fr) (updateSkills (deltaTime fr) e))
                 else s)"
  have q1: "q_cooldown (player s1) =
     (if (gameState s = playing \<or> gameState s = boss_fight) \<and> 0 < q_cooldown (player s)
      then q_cooldown (player s) - deltaTime fr else q_cooldown (player s))"
  proof -
    have "q_cooldown (player (updateMelee (deltaTime fr) (updateSkills (deltaTime fr) e)))
         = q_cooldown (player (updateSkills (deltaTime fr) e))"
      using qSame_updateMelee[of "updateSkills (deltaTime fr) e" "deltaTime fr"] by (simp add: qSame_def)
    then show ?thesis using qe by (simp add: s1_def updateSkills_q qSame_def emit_def)
  qed
  define s2 where "s2 = (if gameState s1 = playing then updateWaveSpawning (deltaTime fr) s1 else s1)"
  have 2: "qSame s1 s2" by (simp add: s2_def qSame_updateWaveSpawning)
  define s3 where "s3 = (if gameState s2 = boss_fight \<and> boss s2 \<noteq> None
                 then (let a = updateBossBullets fr (updateBoss fr s2)
                       in case boss a of
                            None \<Rightarrow> a
                          | Some r \<Rightarrow>
                             emit (EvBossUpdate (b_hp (bstore a r)) (b_maxHp (bstore a r))
                                     (b_weakPointHp (bstore a r))) a)
                 else s2)"
  have 3: "qSame s2 s3"
    using qSame_trans[OF qSame_updateBoss qSame_updateBossBullets]
    by (simp add: s3_def Let_def split: option.splits)
  have 4: "qSame s3 (updateParticles fr s3)" by (rule qSame_updateParticles)
  have q: "qSame s1 (updateParticles fr s3)" using qSame_trans[OF qSame_trans[OF 2 3] 4] .
  have eq: "animate fr s = (if gameState s = paused then s else updateParticles fr s3)"
    unfolding animate_def s3_def s2_def s1_def e_def Let_def by simp
  show ?thesis
  proof (cases "gameState s = paused")
    case True
    then show ?thesis using eq by simp
  next
    case False
    then have "q_cooldown (player (animate fr s)) = q_cooldown (player s1)"
      using eq q by (simp add: qSame_def)
    then show ?thesis using q1 by simp
  qed
qed

theorem heal_skill:
  "hp (player (useSkillQ s)) = min (maxHp (player s)) (hp (player s) + 35)
   \<and> q_cooldown (player (useSkillQ s)) = 20
   \<and> (keys s KeyQ \<and> q_unlocked (player s) \<and> q_cooldown (player s) \<le> 0 \<longrightarrow>
        hp (player (updateActionKeys fr s)) = min (maxHp (player s)) (hp (player s) + 35)
        \<and> q_cooldown (player (updateActionKeys fr s)) = 20)
   \<and> (\<not> keys s KeyQ \<and> 0 \<le> deltaTime fr \<longrightarrow>
        q_cooldown (player (animate fr s)) \<le> q_cooldown (player s)
        \<and> (q_cooldown (player s) \<le> 0 \<longrightarrow>
              q_cooldown (player (animate fr s)) = q_cooldown (player s))
        \<and> ((gameState s = playing \<or> gameState s = boss_fight) \<and> 0 < q_cooldown (player s) \<longrightarrow>
              q_cooldown (player (animate fr s)) = q_cooldown (player s) - deltaTime fr))"
  using updateActionKeys_heal[of s fr]
  by (simp add: animate_q_cooldown useSkillQ_def SKILL_Q_HEAL_def SKILL_Q_COOLDOWN_def)

end
